theory Spec2Isabelle
  imports Main
begin

section \<open>JavaScript values, exceptions and the external collaborators\<close>

text \<open>
  The controller of \<^verbatim>\<open>TRWebSocketController\<close> (the October 2017 revision, the file with
  \<^verbatim>\<open>requestNews\<close> and the composite news key) is embedded as functions on an explicit
  controller state. Messages are the values \<^verbatim>\<open>JSON.parse\<close> produces. Numbers are the
  integers of the protocol's fields (\<^verbatim>\<open>Id\<close>, \<^verbatim>\<open>FRAG_NUM\<close>, \<^verbatim>\<open>TOT_SIZE\<close>).
\<close>

datatype jsval =
    JUndefined
  | JNull
  | JBool bool
  | JNum int
  | JStr string
  | JArr "jsval list"
  | JObj "(string \<times> jsval) list"

text \<open>
  A thrown value is represented by what the handlers of the source read from it, its
  \<^verbatim>\<open>message\<close> property (\<open>JUndefined\<close> when a library throws a bare string).
\<close>

datatype exn = Exn (message: jsval)

text \<open>
  The collaborators the source calls and does not define: \<^verbatim>\<open>JSON.parse\<close>, \<^verbatim>\<open>atob\<close>
  (applied to whatever \<^verbatim>\<open>Fields.FRAGMENT\<close> holds), \<^verbatim>\<open>zlib.pako.inflate\<close> with
  \<^verbatim>\<open>{to: 'string'}\<close> (on the byte array of the binary string's character codes), and the
  language's conversions of a non-number to a number (\<open>None\<close> is NaN) and of a non-string
  to a string. \<open>array_member\<close> tells the names every array answers besides its indices:
  \<^verbatim>\<open>length\<close> and the members it inherits. Binary strings are byte lists, which is what
  \<open>string\<close> is.
\<close>

record externals =
  json_parse :: "string \<Rightarrow> exn + jsval"
  atob :: "jsval \<Rightarrow> exn + string"
  inflate :: "string \<Rightarrow> exn + string"
  to_number :: "jsval \<Rightarrow> int option"
  to_string :: "jsval \<Rightarrow> string"
  array_member :: "string \<Rightarrow> bool"

text \<open>
  Reading a property: \<^verbatim>\<open>v.k\<close>. On \<^verbatim>\<open>undefined\<close> and \<^verbatim>\<open>null\<close> the engine throws a
  TypeError (the wording of its message is the engine's); on an object it is the member or
  \<^verbatim>\<open>undefined\<close>; on the other values every name the source reads (\<^verbatim>\<open>Type\<close>,
  \<^verbatim>\<open>Domain\<close>, \<^verbatim>\<open>State\<close>, \<^verbatim>\<open>Data\<close>, \<^verbatim>\<open>Stream\<close>, \<^verbatim>\<open>Id\<close>, \<^verbatim>\<open>Key\<close>,
  \<^verbatim>\<open>Name\<close>, \<^verbatim>\<open>Fields\<close> and the fields of a fragment) is \<^verbatim>\<open>undefined\<close>, except
  \<^verbatim>\<open>length\<close> of a string or an array. An object lists each member name once.
\<close>

definition typeError :: "string \<Rightarrow> jsval \<Rightarrow> exn" where
  "typeError k v =
     Exn (JStr (''Cannot read property '' @ k @ '' of '' @
                (if v = JNull then ''null'' else ''undefined'')))"

fun getProp :: "jsval \<Rightarrow> string \<Rightarrow> exn + jsval" where
  "getProp JUndefined k = Inl (typeError k JUndefined)"
| "getProp JNull k = Inl (typeError k JNull)"
| "getProp (JObj kvs) k = Inr (case map_of kvs k of None \<Rightarrow> JUndefined | Some v \<Rightarrow> v)"
| "getProp (JStr s) k = Inr (if k = ''length'' then JNum (int (length s)) else JUndefined)"
| "getProp (JArr xs) k = Inr (if k = ''length'' then JNum (int (length xs)) else JUndefined)"
| "getProp (JBool b) k = Inr JUndefined"
| "getProp (JNum n) k = Inr JUndefined"

text \<open>\<^verbatim>\<open>v.a.b\<close>: the second read happens only when the first did not throw.\<close>

definition getProp2 :: "jsval \<Rightarrow> string \<Rightarrow> string \<Rightarrow> exn + jsval" where
  "getProp2 v a b = (case getProp v a of Inl e \<Rightarrow> Inl e | Inr w \<Rightarrow> getProp w b)"

text \<open>The decimal name of an array index, as \<^verbatim>\<open>result[i]\<close> on a plain object uses it.\<close>

definition digit :: "nat \<Rightarrow> char" where
  "digit n = char_of (48 + n)"

function dec :: "nat \<Rightarrow> string" where
  "dec n = (if n < 10 then [digit n] else dec (n div 10) @ [digit (n mod 10)])"
  by pat_completeness auto
termination
  by (relation "measure id") auto

declare dec.simps [simp del]

text \<open>\<^verbatim>\<open>result[i]\<close> for a value that is neither \<^verbatim>\<open>undefined\<close> nor \<^verbatim>\<open>null\<close>.\<close>

fun index :: "jsval \<Rightarrow> nat \<Rightarrow> jsval" where
  "index (JArr xs) i = (if i < length xs then xs ! i else JUndefined)"
| "index (JStr s) i = (if i < length s then JStr [s ! i] else JUndefined)"
| "index (JObj kvs) i = (case map_of kvs (dec i) of None \<Rightarrow> JUndefined | Some v \<Rightarrow> v)"
| "index v i = JUndefined"

text \<open>
  The number a value stands for in a numeric comparison (\<open>None\<close> is NaN, which makes
  every comparison false), and the string it contributes to a concatenation.
\<close>

definition js_number :: "externals \<Rightarrow> jsval \<Rightarrow> int option" where
  "js_number ext v =
     (case v of
        JNum n \<Rightarrow> Some n
      | JUndefined \<Rightarrow> None
      | JNull \<Rightarrow> Some 0
      | JBool b \<Rightarrow> Some (if b then 1 else 0)
      | _ \<Rightarrow> to_number ext v)"

definition js_string :: "externals \<Rightarrow> jsval \<Rightarrow> string" where
  "js_string ext v = (case v of JStr s \<Rightarrow> s | _ \<Rightarrow> to_string ext v)"

text \<open>\<^verbatim>\<open>n < v\<close> and \<^verbatim>\<open>v > n\<close> for a number \<open>n\<close>.\<close>

definition num_lt :: "externals \<Rightarrow> int \<Rightarrow> jsval \<Rightarrow> bool" where
  "num_lt ext n v = (case js_number ext v of None \<Rightarrow> False | Some m \<Rightarrow> n < m)"

text \<open>\<^verbatim>\<open>v == "s"\<close>, the loose comparison with a string literal.\<close>

definition loose_eq_str :: "externals \<Rightarrow> jsval \<Rightarrow> string \<Rightarrow> bool" where
  "loose_eq_str ext v s =
     (case v of
        JStr t \<Rightarrow> t = s
      | JArr xs \<Rightarrow> to_string ext v = s
      | JObj kvs \<Rightarrow> to_string ext v = s
      | _ \<Rightarrow> False)"

section \<open>The controller state\<close>

text \<open>
  Application callbacks are opaque functions: the model names each by a number and records
  every call in a trace, together with every text handed to the transport (the object that
  is serialised). A callback neither throws nor calls back into the controller. The leading
  underscore of the source's private names is dropped (\<^verbatim>\<open>_getID\<close> is \<open>getID\<close>); the
  field \<^verbatim>\<open>_loggedIn\<close> is \<open>loggedIn_flag\<close>, read by \<open>loggedIn\<close>.
\<close>

datatype handler = UserCallback nat | ProcessNewsEnvelope

record slot =
  used :: bool
  processingCb :: "handler option"

record envelope =
  fragments :: string
  totalSize :: jsval

datatype status = processingError | connected | disconnected | loginResponse | msgStatus

datatype event =
    Status nat status jsval
  | MarketData nat jsval
  | News nat jsval jsval
  | Sent jsval
  | Opened string string

record loginParams =
  user :: jsval
  appId :: jsval
  position :: jsval

record controller =
  loggedIn_flag :: bool
  statusCb :: "nat option"
  marketDataCb :: "nat option"
  newsStoryCb :: "nat option"
  msgCb :: "handler option"
  params :: loginParams
  ws :: bool
  requestIDs :: "slot list"
  newsEnvelope :: "string \<rightharpoonup> envelope"
  trace :: "event list"

definition MRN_DOMAIN :: string where
  "MRN_DOMAIN = ''NewsTextAnalytics''"

definition TRWebSocketController :: controller where
  "TRWebSocketController =
     \<lparr>loggedIn_flag = False, statusCb = None, marketDataCb = None, newsStoryCb = None,
      msgCb = None,
      params = \<lparr>user = JStr [], appId = JUndefined, position = JStr []\<rparr>,
      ws = False, requestIDs = [], newsEnvelope = Map.empty, trace = []\<rparr>"

section \<open>The request ID table\<close>

text \<open>
  The property name of an array index: its decimal digits, with no leading zero.
\<close>

definition isDigit :: "char \<Rightarrow> bool" where
  "isDigit c = (c \<in> set ''0123456789'')"

definition indexOfKey :: "string \<Rightarrow> nat option" where
  "indexOfKey k =
     (if k \<noteq> [] \<and> list_all isDigit k \<and> (length k = 1 \<or> hd k \<noteq> CHR ''0'')
      then Some (foldl (\<lambda>a c. 10 * a + (of_char c - 48)) 0 k)
      else None)"

text \<open>
  \<^verbatim>\<open>_requestIDs[id]\<close>: what the table answers for an id. A number, or a value whose
  string is the name of an index, names the slot at that index when the table has one. Any
  other name is a member every array has, whose value is neither \<^verbatim>\<open>undefined\<close> nor a
  slot (it has no \<^verbatim>\<open>used\<close> and no \<^verbatim>\<open>processingCb\<close>), or it is absent.
\<close>

datatype found = Slot nat | Member | Absent

definition entry :: "externals \<Rightarrow> slot list \<Rightarrow> jsval \<Rightarrow> found" where
  "entry ext tbl rid =
     (case rid of
        JNum n \<Rightarrow> if 0 \<le> n \<and> nat n < length tbl then Slot (nat n) else Absent
      | _ \<Rightarrow>
          (let k = js_string ext rid
           in case indexOfKey k of
                Some i \<Rightarrow> if i < length tbl then Slot i else Absent
              | None \<Rightarrow> if array_member ext k then Member else Absent))"

text \<open>The scan of \<^verbatim>\<open>_getID\<close>: \<^verbatim>\<open>for (var i in _requestIDs) if (!_requestIDs[i].used)\<close>.\<close>

fun firstFree :: "slot list \<Rightarrow> nat \<Rightarrow> nat option" where
  "firstFree [] i = None"
| "firstFree (s # ss) i = (if \<not> used s then Some i else firstFree ss (Suc i))"

definition getID :: "slot list \<Rightarrow> nat \<times> slot list" where
  "getID tbl =
     (case firstFree tbl 0 of
        Some i \<Rightarrow> (i, tbl[i := (tbl ! i)\<lparr>used := True, processingCb := None\<rparr>])
      | None \<Rightarrow> (length tbl, tbl @ [\<lparr>used = True, processingCb = None\<rparr>]))"

text \<open>
  \<^verbatim>\<open>_removeID\<close> reads \<^verbatim>\<open>_requestIDs[id].used\<close> with no test of the entry: an id for
  which the table answers \<^verbatim>\<open>undefined\<close> throws. \<^verbatim>\<open>_setCallback\<close> and
  \<^verbatim>\<open>_getCallback\<close> test the entry first. (\<^verbatim>\<open>_setCallback\<close> is only ever called with
  the number \<^verbatim>\<open>_getID\<close> returned.)
\<close>

definition removeID :: "externals \<Rightarrow> slot list \<Rightarrow> jsval \<Rightarrow> exn + (bool \<times> slot list)" where
  "removeID ext tbl rid =
     (case entry ext tbl rid of
        Absent \<Rightarrow> Inl (typeError ''used'' JUndefined)
      | Member \<Rightarrow> Inr (False, tbl)
      | Slot i \<Rightarrow>
          if used (tbl ! i) then Inr (True, tbl[i := (tbl ! i)\<lparr>used := False\<rparr>])
          else Inr (False, tbl))"

definition getAvailableStreams :: "slot list \<Rightarrow> nat list" where
  "getAvailableStreams tbl = [i \<leftarrow> [0..<length tbl]. i > 0]"

definition setCallback ::
  "externals \<Rightarrow> slot list \<Rightarrow> jsval \<Rightarrow> handler option \<Rightarrow> slot list" where
  "setCallback ext tbl rid cb =
     (case entry ext tbl rid of
        Slot i \<Rightarrow> tbl[i := (tbl ! i)\<lparr>processingCb := cb\<rparr>]
      | _ \<Rightarrow> tbl)"

definition getCallback :: "externals \<Rightarrow> slot list \<Rightarrow> jsval \<Rightarrow> handler option" where
  "getCallback ext tbl rid =
     (case entry ext tbl rid of Slot i \<Rightarrow> processingCb (tbl ! i) | _ \<Rightarrow> None)"

text \<open>
  A caller's sequence of allocations and releases, and the indices handed out, in order.
  A release that throws has changed nothing, and the caller goes on.
\<close>

datatype table_op = Allocate | Release jsval

fun allocated :: "externals \<Rightarrow> slot list \<Rightarrow> table_op list \<Rightarrow> nat list" where
  "allocated ext tbl [] = []"
| "allocated ext tbl (Allocate # ops) =
     (case getID tbl of (i, tbl') \<Rightarrow> i # allocated ext tbl' ops)"
| "allocated ext tbl (Release rid # ops) =
     (case removeID ext tbl rid of
        Inl e \<Rightarrow> allocated ext tbl ops
      | Inr (b, tbl') \<Rightarrow> allocated ext tbl' ops)"

section \<open>The news envelopes\<close>

definition getNewsEnvelope :: "controller \<Rightarrow> string \<Rightarrow> envelope option" where
  "getNewsEnvelope st key = newsEnvelope st key"

definition setNewsEnvelope :: "controller \<Rightarrow> string \<Rightarrow> envelope \<Rightarrow> controller" where
  "setNewsEnvelope st key env = st\<lparr>newsEnvelope := (newsEnvelope st)(key \<mapsto> env)\<rparr>"

definition deleteNewsEnvelope :: "controller \<Rightarrow> string \<Rightarrow> controller" where
  "deleteNewsEnvelope st key = st\<lparr>newsEnvelope := (newsEnvelope st)(key := None)\<rparr>"

section \<open>Status events and the transport\<close>

text \<open>
  \<^verbatim>\<open>if ( this.isCallback(this._statusCb) ) this._statusCb(code, msg)\<close>, the line every
  status report of the source is.
\<close>

definition isCallback :: "'a option \<Rightarrow> bool" where
  "isCallback f = (f \<noteq> None)"

definition statusEvent :: "controller \<Rightarrow> status \<Rightarrow> jsval \<Rightarrow> controller" where
  "statusEvent st code msg =
     (case statusCb st of
        None \<Rightarrow> st
      | Some f \<Rightarrow> st\<lparr>trace := trace st @ [Status f code msg]\<rparr>)"

text \<open>
  \<^verbatim>\<open>_send(JSON.stringify(obj))\<close>: nothing is sent before \<^verbatim>\<open>connect\<close> made the socket.
  The transport's own \<^verbatim>\<open>send\<close> is taken not to throw.
\<close>

definition send :: "controller \<Rightarrow> jsval \<Rightarrow> controller" where
  "send st obj = (if ws st then st\<lparr>trace := trace st @ [Sent obj]\<rparr> else st)"

definition pong :: "controller \<Rightarrow> controller" where
  "pong st = send st (JObj [(''Type'', JStr ''Pong'')])"

definition login :: "controller \<Rightarrow> controller" where
  "login st =
     (case getID (requestIDs st) of
        (i, tbl) \<Rightarrow>
          send (st\<lparr>requestIDs := tbl\<rparr>)
            (JObj [(''Id'', JNum (int i)), (''Domain'', JStr ''Login''),
                   (''Key'', JObj [(''Name'', user (params st)),
                      (''Elements'', JObj [(''ApplicationId'', appId (params st)),
                                           (''Position'', position (params st))])])]))"

section \<open>The facade\<close>

definition connect :: "controller \<Rightarrow> string \<Rightarrow> jsval \<Rightarrow> jsval \<Rightarrow> jsval \<Rightarrow> controller" where
  "connect st server u a p =
     st\<lparr>ws := True,
        params := \<lparr>user = u, appId = a, position = p\<rparr>,
        trace := trace st @ [Opened (''ws://'' @ server @ ''/WebSocket'') ''tr_json2'']\<rparr>"

definition requestData ::
  "externals \<Rightarrow> controller \<Rightarrow> jsval \<Rightarrow> jsval \<Rightarrow> jsval \<Rightarrow> jsval \<Rightarrow> nat \<times> controller" where
  "requestData ext st ric serviceName streaming domain =
     (if \<not> loggedIn_flag st then (0, st)
      else
        (case getID (requestIDs st) of
           (i, tbl) \<Rightarrow>
             (i, send (st\<lparr>requestIDs :=
                            setCallback ext tbl (JNum (int i))
                              (map_option UserCallback (marketDataCb st))\<rparr>)
                   (JObj [(''Id'', JNum (int i)), (''Streaming'', streaming),
                          (''Domain'', domain),
                          (''Key'', JObj [(''Name'', ric), (''Service'', serviceName)])]))))"

definition requestNews ::
  "externals \<Rightarrow> controller \<Rightarrow> jsval \<Rightarrow> jsval \<Rightarrow> nat \<times> controller" where
  "requestNews ext st serviceName ric =
     (case requestData ext st ric serviceName (JBool True) (JStr MRN_DOMAIN) of
        (i, st1) \<Rightarrow>
          (i, st1\<lparr>requestIDs :=
                    setCallback ext (requestIDs st1) (JNum (int i))
                      (Some ProcessNewsEnvelope)\<rparr>))"

text \<open>
  \<^verbatim>\<open>closeRequest\<close> sends the close message and then calls \<^verbatim>\<open>_removeID\<close>, whose
  exception, if any, leaves the function: the second component is what the caller catches.
\<close>

definition closeRequest ::
  "externals \<Rightarrow> controller \<Rightarrow> jsval \<Rightarrow> controller \<times> exn option" where
  "closeRequest ext st rid =
     (let st1 = send st (JObj [(''Id'', rid), (''Type'', JStr ''Close'')])
      in case removeID ext (requestIDs st1) rid of
           Inl e \<Rightarrow> (st1, Some e)
         | Inr (b, tbl) \<Rightarrow> (st1\<lparr>requestIDs := tbl\<rparr>, None))"

fun closeEach :: "externals \<Rightarrow> controller \<Rightarrow> nat list \<Rightarrow> controller \<times> exn option" where
  "closeEach ext st [] = (st, None)"
| "closeEach ext st (i # is) =
     (case closeRequest ext st (JNum (int i)) of
        (st1, Some e) \<Rightarrow> (st1, Some e)
      | (st1, None) \<Rightarrow> closeEach ext st1 is)"

definition closeAllRequests :: "externals \<Rightarrow> controller \<Rightarrow> controller \<times> exn option" where
  "closeAllRequests ext st = closeEach ext st (getAvailableStreams (requestIDs st))"

definition onStatus :: "controller \<Rightarrow> nat option \<Rightarrow> controller" where
  "onStatus st f = (if isCallback f then st\<lparr>statusCb := f\<rparr> else st)"

definition onMarketData :: "controller \<Rightarrow> nat option \<Rightarrow> controller" where
  "onMarketData st f = (if isCallback f then st\<lparr>marketDataCb := f\<rparr> else st)"

definition onNews :: "controller \<Rightarrow> nat option \<Rightarrow> controller" where
  "onNews st f = (if isCallback f then st\<lparr>newsStoryCb := f\<rparr> else st)"

definition loggedIn :: "controller \<Rightarrow> bool" where
  "loggedIn st = loggedIn_flag st"

section \<open>Transport events\<close>

definition onOpen :: "controller \<Rightarrow> controller" where
  "onOpen st = login (statusEvent st connected JUndefined)"

definition onClose :: "controller \<Rightarrow> controller" where
  "onClose st = statusEvent (st\<lparr>loggedIn_flag := False\<rparr>) disconnected JUndefined"

section \<open>The news fragment reassembler\<close>

text \<open>
  The part of \<^verbatim>\<open>_processNewsEnvelope\<close> under the comment "All fragments have been
  received for this story - process": inflate, parse, and hand the document to the news
  callback with \<^verbatim>\<open>msg.Key.Name\<close>.
\<close>

definition processStory :: "externals \<Rightarrow> controller \<Rightarrow> jsval \<Rightarrow> string \<Rightarrow> controller \<times> exn option" where
  "processStory ext st msg fragment =
     (case inflate ext fragment of
        Inl e \<Rightarrow> (st, Some e)
      | Inr strData \<Rightarrow>
          (case json_parse ext strData of
             Inl e \<Rightarrow> (st, Some e)
           | Inr contents \<Rightarrow>
               (case newsStoryCb st of
                  None \<Rightarrow> (st, None)
                | Some f \<Rightarrow>
                    (case getProp2 msg ''Key'' ''Name'' of
                       Inl e \<Rightarrow> (st, Some e)
                     | Inr nm \<Rightarrow> (st\<lparr>trace := trace st @ [News f nm contents]\<rparr>, None)))))"

text \<open>\<^verbatim>\<open>msg.Key.Name + ":" + msg.Fields.MRN_SRC + ":" + msg.Fields.GUID\<close>.\<close>

definition newsKey :: "externals \<Rightarrow> jsval \<Rightarrow> exn + string" where
  "newsKey ext msg =
     (case getProp2 msg ''Key'' ''Name'' of
        Inl e \<Rightarrow> Inl e
      | Inr nm \<Rightarrow>
          (case getProp2 msg ''Fields'' ''MRN_SRC'' of
             Inl e \<Rightarrow> Inl e
           | Inr src \<Rightarrow>
               (case getProp2 msg ''Fields'' ''GUID'' of
                  Inl e \<Rightarrow> Inl e
                | Inr guid \<Rightarrow>
                    Inr (js_string ext nm @ '':'' @ js_string ext src @ '':'' @
                         js_string ext guid))))"

text \<open>
  The body of the \<^verbatim>\<open>try\<close> block, with the state reached when an exception leaves it.
  Appending to \<^verbatim>\<open>envelope.fragments\<close> changes the object the map holds.
\<close>

definition newsBody :: "externals \<Rightarrow> controller \<Rightarrow> jsval \<Rightarrow> controller \<times> exn option" where
  "newsBody ext st msg =
     (case getProp msg ''Type'' of
        Inl e \<Rightarrow> (st, Some e)
      | Inr ty \<Rightarrow>
          if ty = JStr ''Update'' \<and> getProp msg ''Domain'' = Inr (JStr MRN_DOMAIN) then
            (case getProp2 msg ''Fields'' ''FRAGMENT'' of
               Inl e \<Rightarrow> (st, Some e)
             | Inr b64 \<Rightarrow>
                 (case atob ext b64 of
                    Inl e \<Rightarrow> (st, Some e)
                  | Inr fragment \<Rightarrow>
                      (case newsKey ext msg of
                         Inl e \<Rightarrow> (st, Some e)
                       | Inr key \<Rightarrow>
                           (case getProp2 msg ''Fields'' ''FRAG_NUM'' of
                              Inl e \<Rightarrow> (st, Some e)
                            | Inr fragNum \<Rightarrow>
                                if num_lt ext 1 fragNum then
                                  (case getNewsEnvelope st key of
                                     Some env \<Rightarrow>
                                       (let env' = env\<lparr>fragments := fragments env @ fragment\<rparr>
                                        in if num_lt ext (int (length (fragments env'))) (totalSize env')
                                           then (setNewsEnvelope st key env', None)
                                           else processStory ext (deleteNewsEnvelope st key) msg
                                                  (fragments env'))
                                   | None \<Rightarrow> processStory ext st msg fragment)
                                else
                                  (case getProp2 msg ''Fields'' ''TOT_SIZE'' of
                                     Inl e \<Rightarrow> (st, Some e)
                                   | Inr tot \<Rightarrow>
                                       if num_lt ext (int (length fragment)) tot
                                       then (setNewsEnvelope st key
                                               \<lparr>fragments = fragment, totalSize = tot\<rparr>, None)
                                       else processStory ext st msg fragment)))))
          else (st, None))"

definition processNewsEnvelope :: "externals \<Rightarrow> controller \<Rightarrow> jsval \<Rightarrow> controller" where
  "processNewsEnvelope ext st msg =
     (case newsBody ext st msg of
        (st1, None) \<Rightarrow> st1
      | (st1, Some e) \<Rightarrow> statusEvent st1 processingError (message e))"

section \<open>The message dispatcher\<close>

text \<open>\<^verbatim>\<open>if ( this.isCallback(this._msgCb) ) this._msgCb(data)\<close>.\<close>

definition callMsgCb :: "externals \<Rightarrow> controller \<Rightarrow> jsval \<Rightarrow> controller" where
  "callMsgCb ext st data =
     (case msgCb st of
        None \<Rightarrow> st
      | Some (UserCallback f) \<Rightarrow> st\<lparr>trace := trace st @ [MarketData f data]\<rparr>
      | Some ProcessNewsEnvelope \<Rightarrow> processNewsEnvelope ext st data)"

text \<open>The release both the status branch and the data branch make, on the controller.\<close>

definition release :: "externals \<Rightarrow> controller \<Rightarrow> jsval \<Rightarrow> controller \<times> exn option" where
  "release ext st rid =
     (case removeID ext (requestIDs st) rid of
        Inl e \<Rightarrow> (st, Some e)
      | Inr (b, tbl) \<Rightarrow> (st\<lparr>requestIDs := tbl\<rparr>, None))"

text \<open>One turn of the loop of \<^verbatim>\<open>_onMessage\<close>, on the element \<^verbatim>\<open>data = result[i]\<close>.\<close>

definition dispatch :: "externals \<Rightarrow> controller \<Rightarrow> jsval \<Rightarrow> controller \<times> exn option" where
  "dispatch ext st data =
     (case getProp data ''Type'' of
        Inl e \<Rightarrow> (st, Some e)
      | Inr ty \<Rightarrow>
          if ty = JStr ''Ping'' then (pong st, None)
          else if getProp data ''Domain'' = Inr (JStr ''Login'') then
            (case getProp2 data ''State'' ''Data'' of
               Inl e \<Rightarrow> (st, Some e)
             | Inr d \<Rightarrow>
                 (statusEvent (st\<lparr>loggedIn_flag := (d = JStr ''Ok'')\<rparr>) loginResponse data,
                  None))
          else if ty = JStr ''Status'' then
            (case getProp2 data ''State'' ''Stream'' of
               Inl e \<Rightarrow> (st, Some e)
             | Inr s \<Rightarrow>
                 (case (if loose_eq_str ext s ''Closed''
                        then (case getProp data ''Id'' of
                                Inl e \<Rightarrow> (st, Some e)
                              | Inr rid \<Rightarrow> release ext st rid)
                        else (st, None)) of
                    (st1, Some e) \<Rightarrow> (st1, Some e)
                  | (st1, None) \<Rightarrow> (statusEvent st1 msgStatus data, None)))
          else
            (case getProp data ''Id'' of
               Inl e \<Rightarrow> (st, Some e)
             | Inr rid \<Rightarrow>
                 (let st1 = st\<lparr>msgCb := getCallback ext (requestIDs st) rid\<rparr>
                  in case (if ty = JStr ''Refresh''
                           then (case getProp2 data ''State'' ''Stream'' of
                                   Inl e \<Rightarrow> (st1, Some e)
                                 | Inr s \<Rightarrow>
                                     if s = JStr ''NonStreaming'' then release ext st1 rid
                                     else (st1, None))
                           else (st1, None)) of
                       (st2, Some e) \<Rightarrow> (st2, Some e)
                     | (st2, None) \<Rightarrow> (callMsgCb ext st2 data, None))))"

text \<open>The loop: elements in array order, left at the first exception.\<close>

fun dispatchAll :: "externals \<Rightarrow> controller \<Rightarrow> jsval list \<Rightarrow> controller \<times> exn option" where
  "dispatchAll ext st [] = (st, None)"
| "dispatchAll ext st (data # rest) =
     (case dispatch ext st data of
        (st1, Some e) \<Rightarrow> (st1, Some e)
      | (st1, None) \<Rightarrow> dispatchAll ext st1 rest)"

text \<open>
  \<^verbatim>\<open>var size = result.length; for (var i=0; i < size; i++) data = result[i]\<close>: the values
  the loop visits. Reading \<^verbatim>\<open>length\<close> of \<^verbatim>\<open>null\<close> throws; a value with no numeric
  \<^verbatim>\<open>length\<close> is visited zero times.
\<close>

definition elements :: "externals \<Rightarrow> jsval \<Rightarrow> exn + jsval list" where
  "elements ext result =
     (case getProp result ''length'' of
        Inl e \<Rightarrow> Inl e
      | Inr sz \<Rightarrow>
          Inr (case js_number ext sz of
                 None \<Rightarrow> []
               | Some n \<Rightarrow> map (index result) [0..<nat n]))"

text \<open>A frame of the transport: \<^verbatim>\<open>msg.data\<close> is a string, or it is not.\<close>

datatype frame = Text string | Binary

fun onMessage :: "externals \<Rightarrow> controller \<Rightarrow> frame \<Rightarrow> controller" where
  "onMessage ext st Binary = st"
| "onMessage ext st (Text s) =
     (if length s > 0 then
        (case json_parse ext s of
           Inl e \<Rightarrow> statusEvent st processingError (message e)
         | Inr result \<Rightarrow>
             (case elements ext result of
                Inl e \<Rightarrow> statusEvent st processingError (message e)
              | Inr xs \<Rightarrow>
                  (case dispatchAll ext st xs of
                     (st1, Some e) \<Rightarrow> statusEvent st1 processingError (message e)
                   | (st1, None) \<Rightarrow> st1)))
      else st)"

section \<open>Predicates on envelopes and stories\<close>

text \<open>
  \<open>incomplete\<close> is the test the source makes on an envelope,
  \<^verbatim>\<open>envelope.fragments.length < envelope.totalSize\<close>; \<open>withinTotal\<close> is the bound
  \<^verbatim>\<open>accumulated.length <= totalSize\<close>. \<open>envelopesIncomplete\<close> says that every envelope
  the map holds is incomplete.
\<close>

definition incomplete :: "externals \<Rightarrow> envelope \<Rightarrow> bool" where
  "incomplete ext env = num_lt ext (int (length (fragments env))) (totalSize env)"

definition withinTotal :: "externals \<Rightarrow> envelope \<Rightarrow> bool" where
  "withinTotal ext env =
     (case js_number ext (totalSize env) of
        None \<Rightarrow> False
      | Some t \<Rightarrow> int (length (fragments env)) \<le> t)"

definition envelopesIncomplete :: "externals \<Rightarrow> controller \<Rightarrow> bool" where
  "envelopesIncomplete ext st =
     (\<forall>key env. newsEnvelope st key = Some env \<longrightarrow> incomplete ext env)"

text \<open>
  \<open>completes ext st msg key\<close>: the message is a news update with \<^verbatim>\<open>FRAG_NUM > 1\<close> for
  \<open>key\<close>, the map holds an envelope for \<open>key\<close> whose length has not reached its total,
  and with the fragment of the message appended it has.
\<close>

definition completes :: "externals \<Rightarrow> controller \<Rightarrow> jsval \<Rightarrow> string \<Rightarrow> bool" where
  "completes ext st msg key =
     (getProp msg ''Type'' = Inr (JStr ''Update'') \<and>
      getProp msg ''Domain'' = Inr (JStr MRN_DOMAIN) \<and>
      newsKey ext msg = Inr key \<and>
      (case getProp2 msg ''Fields'' ''FRAG_NUM'' of
         Inl e \<Rightarrow> False
       | Inr fragNum \<Rightarrow> num_lt ext 1 fragNum) \<and>
      (case getProp2 msg ''Fields'' ''FRAGMENT'' of
         Inl e \<Rightarrow> False
       | Inr b64 \<Rightarrow>
           (case atob ext b64 of
              Inl e \<Rightarrow> False
            | Inr fragment \<Rightarrow>
                (case newsEnvelope st key of
                   None \<Rightarrow> False
                 | Some env \<Rightarrow>
                     incomplete ext env \<and>
                     \<not> incomplete ext (env\<lparr>fragments := fragments env @ fragment\<rparr>)))))"

text \<open>
  \<open>appended ext msg key env env'\<close>: the message is a news update with
  \<^verbatim>\<open>FRAG_NUM > 1\<close> for \<open>key\<close>, and \<open>env'\<close> is \<open>env\<close> with the fragment of the
  message appended, still short of its total. \<open>replaced ext msg key env'\<close>: the message is
  a news update for \<open>key\<close> whose \<^verbatim>\<open>FRAG_NUM\<close> is not above 1 and whose fragment is
  shorter than the total it declares, and \<open>env'\<close> is the new envelope that holds this
  fragment alone.
\<close>

definition appended :: "externals \<Rightarrow> jsval \<Rightarrow> string \<Rightarrow> envelope \<Rightarrow> envelope \<Rightarrow> bool" where
  "appended ext msg key env env' =
     (getProp msg ''Type'' = Inr (JStr ''Update'') \<and>
      getProp msg ''Domain'' = Inr (JStr MRN_DOMAIN) \<and>
      newsKey ext msg = Inr key \<and>
      (case getProp2 msg ''Fields'' ''FRAG_NUM'' of
         Inl e \<Rightarrow> False
       | Inr fragNum \<Rightarrow> num_lt ext 1 fragNum) \<and>
      (case getProp2 msg ''Fields'' ''FRAGMENT'' of
         Inl e \<Rightarrow> False
       | Inr b64 \<Rightarrow>
           (case atob ext b64 of
              Inl e \<Rightarrow> False
            | Inr fragment \<Rightarrow>
                env' = env\<lparr>fragments := fragments env @ fragment\<rparr> \<and> incomplete ext env')))"

definition replaced :: "externals \<Rightarrow> jsval \<Rightarrow> string \<Rightarrow> envelope \<Rightarrow> bool" where
  "replaced ext msg key env' =
     (getProp msg ''Type'' = Inr (JStr ''Update'') \<and>
      getProp msg ''Domain'' = Inr (JStr MRN_DOMAIN) \<and>
      newsKey ext msg = Inr key \<and>
      (case getProp2 msg ''Fields'' ''FRAG_NUM'' of
         Inl e \<Rightarrow> False
       | Inr fragNum \<Rightarrow> \<not> num_lt ext 1 fragNum) \<and>
      (case getProp2 msg ''Fields'' ''FRAGMENT'' of
         Inl e \<Rightarrow> False
       | Inr b64 \<Rightarrow>
           (case atob ext b64 of
              Inl e \<Rightarrow> False
            | Inr fragment \<Rightarrow>
                (case getProp2 msg ''Fields'' ''TOT_SIZE'' of
                   Inl e \<Rightarrow> False
                 | Inr tot \<Rightarrow>
                     env' = \<lparr>fragments = fragment, totalSize = tot\<rparr> \<and>
                     incomplete ext env'))))"

text \<open>
  \<open>isFragment ext key nm msg n bytes\<close>: the message is a news update under \<open>key\<close> with
  content code \<open>nm\<close>, its sequence number is \<open>n\<close> and its fragment decodes to
  \<open>bytes\<close>. \<open>fragmentsFrom\<close>: a list of messages carries the sequence numbers
  \<open>n\<close>, \<open>n + 1\<close>, ... under one key and decodes to the given list of byte strings.
\<close>

definition isFragment ::
  "externals \<Rightarrow> string \<Rightarrow> jsval \<Rightarrow> jsval \<Rightarrow> nat \<Rightarrow> string \<Rightarrow> bool" where
  "isFragment ext key nm msg n bytes =
     (getProp msg ''Type'' = Inr (JStr ''Update'') \<and>
      getProp msg ''Domain'' = Inr (JStr MRN_DOMAIN) \<and>
      (case getProp2 msg ''Fields'' ''FRAGMENT'' of
         Inl e \<Rightarrow> False
       | Inr b64 \<Rightarrow> atob ext b64 = Inr bytes) \<and>
      newsKey ext msg = Inr key \<and>
      getProp2 msg ''Key'' ''Name'' = Inr nm \<and>
      getProp2 msg ''Fields'' ''FRAG_NUM'' = Inr (JNum (int n)))"

fun fragmentsFrom ::
  "externals \<Rightarrow> string \<Rightarrow> jsval \<Rightarrow> nat \<Rightarrow> jsval list \<Rightarrow> string list \<Rightarrow> bool" where
  "fragmentsFrom ext key nm n [] [] = True"
| "fragmentsFrom ext key nm n (m # ms) (b # bs) =
     (isFragment ext key nm m n b \<and> fragmentsFrom ext key nm (Suc n) ms bs)"
| "fragmentsFrom ext key nm n ms bs = False"

section \<open>Stand-ins for the collaborators\<close>

text \<open>
  The examples below run the controller on concrete inputs. There the collaborators are
  replaced by a stand-in that answers as they do on the few inputs the examples use. The
  ten bytes \<open>zlibBraces\<close> are the zlib stream of the text \<^verbatim>\<open>{}\<close>; its base64 is
  \<^verbatim>\<open>eJyrrgUAAXUA+Q==\<close>, and \<^verbatim>\<open>eJyrrg==\<close>, \<^verbatim>\<open>BQABdQ==\<close>, \<^verbatim>\<open>APk=\<close> are the
  base64 of its bytes 0 to 3, 4 to 7 and 8 to 9. The bytes \<^verbatim>\<open>AB\<close>, \<^verbatim>\<open>CD\<close>,
  \<^verbatim>\<open>EF\<close> are not a zlib stream, alone or together.
\<close>

definition zlibBraces :: string where
  "zlibBraces =
     [CHR 0x78, CHR 0x9C, CHR 0xAB, CHR 0xAE, CHR 0x05, CHR 0x00, CHR 0x01, CHR 0x75,
      CHR 0x00, CHR 0xF9]"

definition stub :: externals where
  "stub =
     \<lparr>json_parse = (\<lambda>s. if s = ''{}'' then Inr (JObj [])
                         else if s = ''null'' then Inr JNull
                         else if s = ''[7,null,7]'' then Inr (JArr [JNum 7, JNull, JNum 7])
                         else Inl (Exn (JStr ''Unexpected end of JSON input''))),
      atob = (\<lambda>v. if v = JStr ''QUI='' then Inr ''AB''
                   else if v = JStr ''Q0Q='' then Inr ''CD''
                   else if v = JStr ''RUY='' then Inr ''EF''
                   else if v = JStr ''eJyrrgUAAXUA+Q=='' then Inr zlibBraces
                   else if v = JStr ''eJyrrg=='' then Inr (take 4 zlibBraces)
                   else if v = JStr ''BQABdQ=='' then Inr (take 4 (drop 4 zlibBraces))
                   else if v = JStr ''APk='' then Inr (drop 8 zlibBraces)
                   else if v = JStr [] then Inr []
                   else Inl (Exn (JStr ''The string to be decoded is not correctly encoded''))),
      inflate = (\<lambda>b. if b = zlibBraces then Inr ''{}''
                      else Inl (Exn (JStr ''incorrect header check''))),
      to_number = (\<lambda>v. None),
      to_string = (\<lambda>v. if v = JNull then ''null'' else ''undefined''),
      array_member = (\<lambda>k. k = ''length'')\<rparr>"

text \<open>
  A session after \<^verbatim>\<open>connect\<close>, the three \<^verbatim>\<open>on...\<close> registrations (callbacks 0, 1
  and 2), a successful login on slot 0, one \<^verbatim>\<open>requestData\<close> on slot 1 and one
  \<^verbatim>\<open>requestNews\<close> on slot 2; the trace starts empty.
\<close>

definition session :: controller where
  "session =
     \<lparr>loggedIn_flag = True, statusCb = Some 0, marketDataCb = Some 1, newsStoryCb = Some 2,
      msgCb = None,
      params = \<lparr>user = JStr ''user'', appId = JStr ''256'', position = JStr ''127.0.0.1''\<rparr>,
      ws = True,
      requestIDs = [\<lparr>used = True, processingCb = None\<rparr>,
                    \<lparr>used = True, processingCb = Some (UserCallback 1)\<rparr>,
                    \<lparr>used = True, processingCb = Some ProcessNewsEnvelope\<rparr>],
      newsEnvelope = Map.empty, trace = []\<rparr>"

text \<open>A news update on the stream of slot 2: fragment \<open>n\<close> of a story, base64 \<open>b64\<close>.\<close>

definition newsUpdate :: "int \<Rightarrow> string \<Rightarrow> int \<Rightarrow> jsval" where
  "newsUpdate n b64 tot =
     JObj [(''Id'', JNum 2), (''Type'', JStr ''Update''), (''Domain'', JStr ''NewsTextAnalytics''),
           (''Key'', JObj [(''Name'', JStr ''MRN_STORY'')]),
           (''Fields'', JObj [(''FRAGMENT'', JStr b64), (''FRAG_NUM'', JNum n),
                              (''TOT_SIZE'', JNum tot), (''GUID'', JStr ''g1''),
                              (''MRN_SRC'', JStr ''src'')])]"

section \<open>The request ID table: allocation order\<close>

lemma firstFree_Some:
  "firstFree tbl k = Some i \<Longrightarrow>
     k \<le> i \<and> i - k < length tbl \<and> \<not> used (tbl ! (i - k)) \<and> (\<forall>j<i - k. used (tbl ! j))"
proof (induction tbl arbitrary: k)
  case Nil
  then show ?case by simp
next
  case (Cons s ss)
  show ?case
  proof (cases "used s")
    case False
    with Cons.prems show ?thesis by simp
  next
    case True
    with Cons.prems have ff: "firstFree ss (Suc k) = Some i" by simp
    from Cons.IH [OF ff] have a: "Suc k \<le> i" and b: "i - Suc k < length ss"
      and c: "\<not> used (ss ! (i - Suc k))" and d: "\<forall>j<i - Suc k. used (ss ! j)"
      by simp_all
    from a have e: "i - k = Suc (i - Suc k)" by arith
    have "\<forall>j<i - k. used ((s # ss) ! j)"
    proof (intro allI impI)
      fix j assume "j < i - k"
      then show "used ((s # ss) ! j)" using True d e by (cases j) auto
    qed
    with a b c e show ?thesis by simp
  qed
qed

lemma firstFree_None:
  "firstFree tbl k = None \<Longrightarrow> \<forall>j<length tbl. used (tbl ! j)"
proof (induction tbl arbitrary: k)
  case Nil
  then show ?case by simp
next
  case (Cons s ss)
  then have u: "used s" and ff: "firstFree ss (Suc k) = None"
    by (auto split: if_splits)
  from Cons.IH [OF ff] have "\<forall>j<length ss. used (ss ! j)" .
  with u show ?case by (auto simp: nth_Cons split: nat.splits)
qed

lemma slot_reset:
  "(s::slot)\<lparr>used := True, processingCb := None\<rparr> = \<lparr>used = True, processingCb = None\<rparr>"
  by (cases s) simp

lemma getID_cases:
  "getID tbl = (i, tbl') \<Longrightarrow>
     (if \<exists>j<length tbl. \<not> used (tbl ! j)
      then i < length tbl \<and> \<not> used (tbl ! i) \<and> (\<forall>j<i. used (tbl ! j)) \<and>
           tbl' = tbl[i := \<lparr>used = True, processingCb = None\<rparr>]
      else i = length tbl \<and> tbl' = tbl @ [\<lparr>used = True, processingCb = None\<rparr>])"
proof (cases "firstFree tbl 0")
  case None
  assume g: "getID tbl = (i, tbl')"
  from firstFree_None [OF None] have "\<not> (\<exists>j<length tbl. \<not> used (tbl ! j))" by blast
  with g None show ?thesis by (simp add: getID_def)
next
  case (Some q)
  assume g: "getID tbl = (i, tbl')"
  from firstFree_Some [OF Some] have q: "q < length tbl" "\<not> used (tbl ! q)" "\<forall>j<q. used (tbl ! j)"
    by simp_all
  then have ex: "\<exists>j<length tbl. \<not> used (tbl ! j)" by blast
  have "getID tbl = (q, tbl[q := (tbl ! q)\<lparr>used := True, processingCb := None\<rparr>])"
    using Some by (simp add: getID_def)
  with g have "i = q" and "tbl' = tbl[q := (tbl ! q)\<lparr>used := True, processingCb := None\<rparr>]"
    by auto
  with q ex show ?thesis by (simp add: slot_reset)
qed

lemma entry_Slot: "entry ext tbl rid = Slot k \<Longrightarrow> k < length tbl"
  by (auto simp: entry_def Let_def split: jsval.splits if_splits option.splits)

lemma entry_Slot_length:
  assumes "entry ext tbl rid = Slot k" and "k < length tbl'"
  shows "entry ext tbl' rid = Slot k"
proof (cases "\<exists>n. rid = JNum n")
  case True
  then obtain n where "rid = JNum n" by blast
  with assms show ?thesis by (auto simp: entry_def split: if_splits)
next
  case False
  then have other: "entry ext t rid =
      (case indexOfKey (js_string ext rid) of
         Some i \<Rightarrow> if i < length t then Slot i else Absent
       | None \<Rightarrow> if array_member ext (js_string ext rid) then Member else Absent)" for t
    by (cases rid) (simp_all add: entry_def Let_def)
  from assms(1) have "indexOfKey (js_string ext rid) = Some k"
    by (simp add: other split: option.splits if_splits)
  with assms(2) show ?thesis by (simp add: other)
qed

text \<open>
  An id that is the string of an index names the slot as the number does; a string with a
  leading zero is no index; for \<^verbatim>\<open>length\<close> the table answers a value that is not a slot,
  and \<^verbatim>\<open>_removeID\<close> returns false.
\<close>

lemma entry_strings:
  "entry stub (requestIDs session) (JStr ''1'') = Slot 1"
  "entry stub (requestIDs session) (JStr ''01'') = Absent"
  "entry stub (requestIDs session) (JStr ''3'') = Absent"
  "removeID stub (requestIDs session) (JStr ''length'') = Inr (False, requestIDs session)"
  "getCallback stub (requestIDs session) (JStr ''1'') = Some (UserCallback 1)"
  by (simp_all add: entry_def removeID_def getCallback_def js_string_def indexOfKey_def
        isDigit_def stub_def session_def)

lemma removeID_Inr:
  "removeID ext tbl rid = Inr (b, tbl1) \<Longrightarrow>
     (entry ext tbl rid = Member \<and> \<not> b \<and> tbl1 = tbl) \<or>
     (\<exists>k. entry ext tbl rid = Slot k \<and> b = used (tbl ! k) \<and>
          tbl1 = (if used (tbl ! k) then tbl[k := (tbl ! k)\<lparr>used := False\<rparr>] else tbl))"
  by (auto simp: removeID_def split: found.splits if_splits)

lemma removeID_keeps_free:
  assumes "removeID ext tbl rid = Inr (b, tbl1)" and "k < length tbl" and "\<not> used (tbl ! k)"
  shows "length tbl1 = length tbl \<and> \<not> used (tbl1 ! k)"
proof -
  from removeID_Inr [OF assms(1)]
  consider "tbl1 = tbl"
    | m where "entry ext tbl rid = Slot m"
        and "tbl1 = (if used (tbl ! m) then tbl[m := (tbl ! m)\<lparr>used := False\<rparr>] else tbl)"
    by blast
  then show ?thesis
  proof cases
    case 1
    with assms(2,3) show ?thesis by simp
  next
    case (2 m)
    from entry_Slot [OF 2(1)] have "m < length tbl" .
    with 2(2) assms(2,3) show ?thesis by (cases "m = k") auto
  qed
qed

lemma free_slot_first:
  "k < length tbl \<Longrightarrow> \<not> used (tbl ! k) \<Longrightarrow>
     j \<in> set (takeWhile (\<lambda>j. j \<noteq> k) (allocated ext tbl ops)) \<Longrightarrow> j < k"
proof (induction ops arbitrary: tbl)
  case Nil
  then show ?case by simp
next
  case (Cons a ops)
  show ?case
  proof (cases a)
    case Allocate
    obtain i tbl' where g: "getID tbl = (i, tbl')" by (cases "getID tbl")
    from Cons.prems(1,2) have ex: "\<exists>j<length tbl. \<not> used (tbl ! j)" by blast
    with getID_cases [OF g] have i: "i < length tbl" "\<forall>j<i. used (tbl ! j)"
      and t: "tbl' = tbl[i := \<lparr>used = True, processingCb = None\<rparr>]" by simp_all
    from i(2) Cons.prems(2) have ik: "i \<le> k" by (meson not_less)
    show ?thesis
    proof (cases "i = k")
      case True
      with Cons.prems(3) Allocate g show ?thesis by simp
    next
      case False
      with ik have lt: "i < k" by simp
      from t False Cons.prems(1,2) have k': "k < length tbl'" "\<not> used (tbl' ! k)" by simp_all
      from Cons.prems(3) Allocate g False
      have "j = i \<or> j \<in> set (takeWhile (\<lambda>j. j \<noteq> k) (allocated ext tbl' ops))" by auto
      with lt Cons.IH [OF k'] show ?thesis by blast
    qed
  next
    case (Release rid)
    show ?thesis
    proof (cases "removeID ext tbl rid")
      case (Inl e)
      with Cons.prems(3) Release have "j \<in> set (takeWhile (\<lambda>j. j \<noteq> k) (allocated ext tbl ops))"
        by simp
      with Cons.IH [OF Cons.prems(1,2)] show ?thesis .
    next
      case (Inr r)
      obtain b tbl1 where r: "r = (b, tbl1)" by (cases r)
      with Inr have rm: "removeID ext tbl rid = Inr (b, tbl1)" by simp
      from removeID_keeps_free [OF rm Cons.prems(1,2)]
      have k': "k < length tbl1" "\<not> used (tbl1 ! k)" using Cons.prems(1) by simp_all
      from Cons.prems(3) Release rm
      have "j \<in> set (takeWhile (\<lambda>j. j \<noteq> k) (allocated ext tbl1 ops))" by simp
      with Cons.IH [OF k'] show ?thesis .
    qed
  qed
qed

lemma removeID_frees:
  assumes "removeID ext tbl rid = Inr (b, tbl1)" and "entry ext tbl rid = Slot k"
  shows "k < length tbl1 \<and> \<not> used (tbl1 ! k)"
proof -
  from entry_Slot [OF assms(2)] have "k < length tbl" .
  with removeID_Inr [OF assms(1)] assms(2) show ?thesis by auto
qed

text \<open>
  Claim C3. \<^verbatim>\<open>_getID\<close> returns the smallest index whose slot is free, marks that
  slot used and clears its handler, and appends a new used slot only when no slot is free.
  Consequently, after a release of an index \<open>k\<close>, in every sequence of allocations and
  releases each index handed out before \<open>k\<close> is handed out again is smaller than \<open>k\<close>:
  no larger index is returned first.
\<close>

theorem getID_smallest_free_and_reuse:
  "(getID tbl = (i, tbl') \<longrightarrow>
      (if \<exists>j<length tbl. \<not> used (tbl ! j)
       then i < length tbl \<and> \<not> used (tbl ! i) \<and> (\<forall>j<i. used (tbl ! j)) \<and>
            tbl' = tbl[i := \<lparr>used = True, processingCb = None\<rparr>]
       else i = length tbl \<and> tbl' = tbl @ [\<lparr>used = True, processingCb = None\<rparr>]))
   \<and> (removeID ext tbl rid = Inr (b, tbl1) \<and> entry ext tbl rid = Slot k \<longrightarrow>
        (\<forall>j \<in> set (takeWhile (\<lambda>j. j \<noteq> k) (allocated ext tbl1 ops)). j < k))"
proof (intro conjI impI ballI)
  assume "getID tbl = (i, tbl')"
  then show "if \<exists>j<length tbl. \<not> used (tbl ! j)
       then i < length tbl \<and> \<not> used (tbl ! i) \<and> (\<forall>j<i. used (tbl ! j)) \<and>
            tbl' = tbl[i := \<lparr>used = True, processingCb = None\<rparr>]
       else i = length tbl \<and> tbl' = tbl @ [\<lparr>used = True, processingCb = None\<rparr>]"
    by (rule getID_cases)
next
  fix j
  assume a: "removeID ext tbl rid = Inr (b, tbl1) \<and> entry ext tbl rid = Slot k"
    and j: "j \<in> set (takeWhile (\<lambda>j. j \<noteq> k) (allocated ext tbl1 ops))"
  from a removeID_frees have "k < length tbl1" "\<not> used (tbl1 ! k)" by blast+
  then show "j < k" using j by (rule free_slot_first)
qed


theorem getID_smallest_free_and_reuse_witness:
  "getID [\<lparr>used = False, processingCb = None\<rparr>,
          \<lparr>used = True, processingCb = Some (UserCallback 7)\<rparr>,
          \<lparr>used = True, processingCb = None\<rparr>]
     = (0, [\<lparr>used = True, processingCb = None\<rparr>,
            \<lparr>used = True, processingCb = Some (UserCallback 7)\<rparr>,
            \<lparr>used = True, processingCb = None\<rparr>])
   \<and> removeID stub [\<lparr>used = False, processingCb = None\<rparr>,
                \<lparr>used = True, processingCb = Some (UserCallback 7)\<rparr>,
                \<lparr>used = True, processingCb = None\<rparr>] (JNum 1)
     = Inr (True, [\<lparr>used = False, processingCb = None\<rparr>,
                   \<lparr>used = False, processingCb = Some (UserCallback 7)\<rparr>,
                   \<lparr>used = True, processingCb = None\<rparr>])
   \<and> entry stub [\<lparr>used = False, processingCb = None\<rparr>,
             \<lparr>used = True, processingCb = Some (UserCallback 7)\<rparr>,
             \<lparr>used = True, processingCb = None\<rparr>] (JNum 1) = Slot 1
   \<and> allocated stub [\<lparr>used = False, processingCb = None\<rparr>,
                 \<lparr>used = False, processingCb = Some (UserCallback 7)\<rparr>,
                 \<lparr>used = True, processingCb = None\<rparr>]
        [Allocate, Release (JNum 9), Allocate, Allocate] = [0, 1, 3]
   \<and> list_all (\<lambda>j. j < 1) (takeWhile (\<lambda>j. j \<noteq> 1)
          (allocated stub [\<lparr>used = False, processingCb = None\<rparr>,
                      \<lparr>used = False, processingCb = Some (UserCallback 7)\<rparr>,
                      \<lparr>used = True, processingCb = None\<rparr>]
             [Allocate, Release (JNum 9), Allocate, Allocate]))"
proof -
  let ?T = "[\<lparr>used = False, processingCb = None\<rparr>,
             \<lparr>used = True, processingCb = Some (UserCallback 7)\<rparr>,
             \<lparr>used = True, processingCb = None\<rparr>]"
  let ?T' = "[\<lparr>used = True, processingCb = None\<rparr>,
              \<lparr>used = True, processingCb = Some (UserCallback 7)\<rparr>,
              \<lparr>used = True, processingCb = None\<rparr>]"
  let ?T1 = "[\<lparr>used = False, processingCb = None\<rparr>,
              \<lparr>used = False, processingCb = Some (UserCallback 7)\<rparr>,
              \<lparr>used = True, processingCb = None\<rparr>]"
  have g: "getID ?T = (0, ?T')" by (simp add: getID_def)
  have e: "entry stub ?T (JNum 1) = Slot 1" by (simp add: entry_def)
  have r: "removeID stub ?T (JNum 1) = Inr (True, ?T1)" by (simp add: removeID_def entry_def)
  have a: "allocated stub ?T1 [Allocate, Release (JNum 9), Allocate, Allocate] = [0, 1, 3]"
    by (simp add: getID_def removeID_def entry_def)
  from getID_smallest_free_and_reuse
         [of ?T 0 ?T' stub "JNum 1" True ?T1 1 "[Allocate, Release (JNum 9), Allocate, Allocate]"]
       g r e
  have "\<forall>j \<in> set (takeWhile (\<lambda>j. j \<noteq> 1)
          (allocated stub ?T1 [Allocate, Release (JNum 9), Allocate, Allocate])). j < 1"
    by blast
  then have "list_all (\<lambda>j. j < 1) (takeWhile (\<lambda>j. j \<noteq> 1)
          (allocated stub ?T1 [Allocate, Release (JNum 9), Allocate, Allocate]))"
    by (simp only: list_all_iff)
  with g r e a show ?thesis by blast
qed

section \<open>Transport close\<close>

text \<open>
  Claim C9. On transport-close, \<^verbatim>\<open>_onClose\<close> sets the logged-in flag to false and
  reports \<^verbatim>\<open>disconnected\<close> with no payload to the registered status handler; every
  other part of the state, the slot table and the envelope map among them, is as before.
\<close>

theorem onClose_effect:
  "onClose st =
     st\<lparr>loggedIn_flag := False,
        trace := trace st @ (case statusCb st of
                               None \<Rightarrow> []
                             | Some f \<Rightarrow> [Status f disconnected JUndefined])\<rparr>
   \<and> \<not> loggedIn (onClose st)
   \<and> requestIDs (onClose st) = requestIDs st
   \<and> newsEnvelope (onClose st) = newsEnvelope st"
  by (simp add: onClose_def statusEvent_def loggedIn_def split: option.splits)

section \<open>Requests before login\<close>

text \<open>
  Claim C10. While \<^verbatim>\<open>loggedIn()\<close> is false, \<^verbatim>\<open>requestData\<close> returns 0 and leaves the
  state as it is (no slot allocated, no handler registered, nothing sent);
  \<^verbatim>\<open>requestNews\<close> returns 0 too, and sets the handler of slot 0 to the news processor
  whenever the table has a slot 0.
\<close>

theorem requests_when_not_loggedIn:
  "\<not> loggedIn st \<Longrightarrow>
     requestData ext st ric serviceName streaming domain = (0, st) \<and>
     requestNews ext st newsService newsRic =
       (0, st\<lparr>requestIDs :=
                 (case requestIDs st of
                    [] \<Rightarrow> []
                  | s # ss \<Rightarrow> s\<lparr>processingCb := Some ProcessNewsEnvelope\<rparr> # ss)\<rparr>)"
  by (simp add: loggedIn_def requestData_def requestNews_def setCallback_def entry_def
           split: list.splits)

theorem requests_when_not_loggedIn_witness:
  "\<not> loggedIn (onClose session) \<and>
   requestData stub (onClose session) (JStr ''TRI.N'') (JStr ''ELEKTRON_SERVICE'') (JBool True)
       (JStr ''MarketPrice'') = (0, onClose session) \<and>
   requestNews stub (onClose session) (JStr ''ELEKTRON_SERVICE'') (JStr ''MRN_STORY'') =
     (0, (onClose session)\<lparr>requestIDs :=
            [\<lparr>used = True, processingCb = Some ProcessNewsEnvelope\<rparr>,
             \<lparr>used = True, processingCb = Some (UserCallback 1)\<rparr>,
             \<lparr>used = True, processingCb = Some ProcessNewsEnvelope\<rparr>]\<rparr>)"
proof -
  have n: "\<not> loggedIn (onClose session)"
    by (simp add: loggedIn_def onClose_def statusEvent_def session_def)
  have r: "requestIDs (onClose session) =
             [\<lparr>used = True, processingCb = None\<rparr>,
              \<lparr>used = True, processingCb = Some (UserCallback 1)\<rparr>,
              \<lparr>used = True, processingCb = Some ProcessNewsEnvelope\<rparr>]"
    by (simp add: onClose_def statusEvent_def session_def)
  from requests_when_not_loggedIn [OF n, of stub "JStr ''TRI.N''" "JStr ''ELEKTRON_SERVICE''"
         "JBool True" "JStr ''MarketPrice''" "JStr ''ELEKTRON_SERVICE''" "JStr ''MRN_STORY''"]
  show ?thesis using n r by simp
qed

section \<open>Releasing an id that names no slot\<close>

text \<open>
  Claim C2 says that releasing an unknown index is a no-op returning false and that no
  facade operation throws. In the session with slots 0, 1 and 2, \<^verbatim>\<open>_removeID(5)\<close>
  throws, and so does \<^verbatim>\<open>closeRequest(5)\<close>, after it has sent the close message. The
  sibling accessors \<^verbatim>\<open>_getCallback\<close> and \<^verbatim>\<open>_setCallback\<close> test the entry first
  and do nothing for the same id.
\<close>

theorem removeID_unknown_id_throws:
  "removeID stub (requestIDs session) (JNum 5) = Inl (typeError ''used'' JUndefined)
   \<and> closeRequest stub session (JNum 5) =
       (session\<lparr>trace := [Sent (JObj [(''Id'', JNum 5), (''Type'', JStr ''Close'')])]\<rparr>,
        Some (typeError ''used'' JUndefined))
   \<and> getCallback stub (requestIDs session) (JNum 5) = None
   \<and> setCallback stub (requestIDs session) (JNum 5) (Some ProcessNewsEnvelope) =
       requestIDs session"
  by (simp add: removeID_def closeRequest_def getCallback_def setCallback_def entry_def
        send_def session_def)

section \<open>A continuation fragment with no envelope\<close>

text \<open>
  Claim C1 says that a news update with \<^verbatim>\<open>FRAG_NUM > 1\<close> whose key has no envelope is
  dropped silently. In the session, whose envelope map is empty, fragment 2 of a story
  skips the body of \<^verbatim>\<open>if ( envelope )\<close> and falls through to the code for a complete
  story: the lone fragment is inflated, the inflation fails, and a
  \<^verbatim>\<open>processingError\<close> status event is reported.
\<close>

theorem orphan_continuation_is_processed:
  "getNewsEnvelope session ''MRN_STORY:src:g1'' = None
   \<and> newsKey stub (newsUpdate 2 ''Q0Q='' 6) = Inr ''MRN_STORY:src:g1''
   \<and> trace (processNewsEnvelope stub session (newsUpdate 2 ''Q0Q='' 6)) =
       [Status 0 processingError (JStr ''incorrect header check'')]"
  by (simp add: processNewsEnvelope_def newsBody_def processStory_def newsKey_def getProp2_def
        newsUpdate_def stub_def zlibBraces_def session_def getNewsEnvelope_def num_lt_def js_number_def
        js_string_def MRN_DOMAIN_def statusEvent_def)

section \<open>The login response\<close>

text \<open>
  Claim C5 speaks of every inbound message whose \<^verbatim>\<open>Domain\<close> is \<^verbatim>\<open>Login\<close>. Two such
  messages behave otherwise before login. One whose \<^verbatim>\<open>Type\<close> is \<^verbatim>\<open>Ping\<close> is taken
  by the first branch of the dispatcher: a pong is sent, the flag stays false although
  \<^verbatim>\<open>State.Data\<close> is \<^verbatim>\<open>"Ok"\<close>, and no \<^verbatim>\<open>loginResponse\<close> is reported. One with no
  \<^verbatim>\<open>State\<close> throws at \<^verbatim>\<open>data.State.Data\<close>: nothing is reported by the login branch.
\<close>

theorem login_domain_counterexample:
  "getProp2 (JObj [(''Type'', JStr ''Ping''), (''Domain'', JStr ''Login''),
                   (''State'', JObj [(''Data'', JStr ''Ok'')])]) ''State'' ''Data''
     = Inr (JStr ''Ok'')
   \<and> dispatch stub (session\<lparr>loggedIn_flag := False\<rparr>)
         (JObj [(''Type'', JStr ''Ping''), (''Domain'', JStr ''Login''),
                (''State'', JObj [(''Data'', JStr ''Ok'')])])
     = (session\<lparr>loggedIn_flag := False,
                  trace := [Sent (JObj [(''Type'', JStr ''Pong'')])]\<rparr>, None)
   \<and> dispatch stub (session\<lparr>loggedIn_flag := False\<rparr>)
         (JObj [(''Id'', JNum 0), (''Type'', JStr ''Refresh''), (''Domain'', JStr ''Login'')])
     = (session\<lparr>loggedIn_flag := False\<rparr>, Some (typeError ''Data'' JUndefined))"
  by (simp add: dispatch_def getProp2_def pong_def send_def session_def)

text \<open>
  Claim C5, amended. For every inbound message whose \<^verbatim>\<open>Type\<close> is not \<^verbatim>\<open>Ping\<close>, whose
  \<^verbatim>\<open>Domain\<close> is \<^verbatim>\<open>Login\<close> and whose \<^verbatim>\<open>State.Data\<close> can be read (\<^verbatim>\<open>State\<close> is
  neither missing nor null), after dispatch \<^verbatim>\<open>loggedIn()\<close> is true if and only if
  \<^verbatim>\<open>State.Data\<close> is the string \<^verbatim>\<open>"Ok"\<close>, and the registered status handler receives one
  \<^verbatim>\<open>loginResponse\<close> event carrying the whole message, whether the login succeeded or
  failed; nothing else changes.
\<close>

theorem login_response:
  assumes "getProp data ''Type'' = Inr ty" and "ty \<noteq> JStr ''Ping''"
    and "getProp data ''Domain'' = Inr (JStr ''Login'')"
    and "getProp2 data ''State'' ''Data'' = Inr d"
  shows "dispatch ext st data =
           (st\<lparr>loggedIn_flag := (d = JStr ''Ok''),
               trace := trace st @ (case statusCb st of
                                      None \<Rightarrow> []
                                    | Some f \<Rightarrow> [Status f loginResponse data])\<rparr>, None)
         \<and> (loggedIn (fst (dispatch ext st data)) \<longleftrightarrow> d = JStr ''Ok'')"
  using assms
  by (simp add: dispatch_def statusEvent_def loggedIn_def split: option.splits)

theorem login_response_witness:
  "getProp (JObj [(''Id'', JNum 0), (''Type'', JStr ''Refresh''), (''Domain'', JStr ''Login''),
                  (''State'', JObj [(''Stream'', JStr ''Open''), (''Data'', JStr ''Ok'')])])
      ''Type'' = Inr (JStr ''Refresh'')
   \<and> JStr ''Refresh'' \<noteq> JStr ''Ping''
   \<and> getProp (JObj [(''Id'', JNum 0), (''Type'', JStr ''Refresh''), (''Domain'', JStr ''Login''),
                  (''State'', JObj [(''Stream'', JStr ''Open''), (''Data'', JStr ''Ok'')])])
      ''Domain'' = Inr (JStr ''Login'')
   \<and> getProp2 (JObj [(''Id'', JNum 0), (''Type'', JStr ''Refresh''), (''Domain'', JStr ''Login''),
                  (''State'', JObj [(''Stream'', JStr ''Open''), (''Data'', JStr ''Ok'')])])
      ''State'' ''Data'' = Inr (JStr ''Ok'')
   \<and> dispatch stub (session\<lparr>loggedIn_flag := False\<rparr>)
        (JObj [(''Id'', JNum 0), (''Type'', JStr ''Refresh''), (''Domain'', JStr ''Login''),
               (''State'', JObj [(''Stream'', JStr ''Open''), (''Data'', JStr ''Ok'')])])
     = (session\<lparr>loggedIn_flag := True,
          trace := [Status 0 loginResponse
             (JObj [(''Id'', JNum 0), (''Type'', JStr ''Refresh''), (''Domain'', JStr ''Login''),
                    (''State'', JObj [(''Stream'', JStr ''Open''), (''Data'', JStr ''Ok'')])])]\<rparr>,
        None)"
proof -
  let ?m = "JObj [(''Id'', JNum 0), (''Type'', JStr ''Refresh''), (''Domain'', JStr ''Login''),
                  (''State'', JObj [(''Stream'', JStr ''Open''), (''Data'', JStr ''Ok'')])]"
  have t: "getProp ?m ''Type'' = Inr (JStr ''Refresh'')" by simp
  have n: "JStr ''Refresh'' \<noteq> JStr ''Ping''" by simp
  have d: "getProp ?m ''Domain'' = Inr (JStr ''Login'')" by simp
  have s: "getProp2 ?m ''State'' ''Data'' = Inr (JStr ''Ok'')" by (simp add: getProp2_def)
  from login_response [OF t n d s, of stub "session\<lparr>loggedIn_flag := False\<rparr>"]
  have "dispatch stub (session\<lparr>loggedIn_flag := False\<rparr>) ?m =
          (session\<lparr>loggedIn_flag := True, trace := [Status 0 loginResponse ?m]\<rparr>, None)"
    by (simp add: session_def)
  with t n d s show ?thesis by blast
qed


section \<open>One-shot snapshots and stale ids\<close>

lemma slot_free_same: "\<not> used (s::slot) \<Longrightarrow> s\<lparr>used := False\<rparr> = s"
  by (cases s) simp

text \<open>
  Claim C6 says that after a non-streaming \<^verbatim>\<open>Refresh\<close> released its slot, a later data
  message with the same id is delivered to no handler. In the session, the snapshot for
  slot 1 frees the slot and leaves its handler in place, and the update that follows with
  id 1 reaches the same market data callback.
\<close>

theorem stale_id_counterexample:
  "dispatchAll stub session
     [JObj [(''Id'', JNum 1), (''Type'', JStr ''Refresh''), (''Domain'', JStr ''MarketPrice''),
            (''State'', JObj [(''Stream'', JStr ''NonStreaming''), (''Data'', JStr ''Ok'')])],
      JObj [(''Id'', JNum 1), (''Type'', JStr ''Update''), (''Domain'', JStr ''MarketPrice'')]]
   = (session\<lparr>msgCb := Some (UserCallback 1),
        requestIDs := [\<lparr>used = True, processingCb = None\<rparr>,
                       \<lparr>used = False, processingCb = Some (UserCallback 1)\<rparr>,
                       \<lparr>used = True, processingCb = Some ProcessNewsEnvelope\<rparr>],
        trace := [MarketData 1
                    (JObj [(''Id'', JNum 1), (''Type'', JStr ''Refresh''),
                           (''Domain'', JStr ''MarketPrice''),
                           (''State'', JObj [(''Stream'', JStr ''NonStreaming''),
                                             (''Data'', JStr ''Ok'')])]),
                  MarketData 1
                    (JObj [(''Id'', JNum 1), (''Type'', JStr ''Update''),
                           (''Domain'', JStr ''MarketPrice'')])]\<rparr>, None)"
  by (simp add: dispatch_def getProp2_def getCallback_def entry_def release_def removeID_def
        callMsgCb_def session_def)

lemma release_free_slot:
  "entry ext (requestIDs st) rid = Slot i \<Longrightarrow> \<not> used (requestIDs st ! i) \<Longrightarrow>
     release ext st rid = (st, None)"
  by (simp add: release_def removeID_def)

text \<open>
  Claim C6, amended. For every data message whose \<^verbatim>\<open>Type\<close> is \<^verbatim>\<open>Refresh\<close>, whose
  stream state is \<^verbatim>\<open>NonStreaming\<close> and whose \<^verbatim>\<open>Id\<close> names a slot, dispatch marks that
  slot free and delivers the message to the handler registered on it. The release leaves
  the handler on the freed slot, so a later data message with the same \<^verbatim>\<open>Id\<close>, arriving
  while the slot is as the release left it (not allocated again, its handler not replaced),
  is delivered to that same handler. The one exception is a later \<^verbatim>\<open>Refresh\<close> whose
  \<^verbatim>\<open>State.Stream\<close> cannot be read: it throws before the delivery.
\<close>

theorem snapshot_release_keeps_handler:
  assumes "getProp data ''Type'' = Inr (JStr ''Refresh'')"
    and "getProp data ''Domain'' \<noteq> Inr (JStr ''Login'')"
    and "getProp2 data ''State'' ''Stream'' = Inr (JStr ''NonStreaming'')"
    and "getProp data ''Id'' = Inr rid"
    and "entry ext (requestIDs st) rid = Slot i"
    and "getProp later ''Type'' = Inr ty" and "ty \<noteq> JStr ''Ping''" and "ty \<noteq> JStr ''Status''"
    and "getProp later ''Domain'' \<noteq> Inr (JStr ''Login'')"
    and "getProp later ''Id'' = Inr rid"
    and "i < length (requestIDs st')"
    and "requestIDs st' ! i = (requestIDs st ! i)\<lparr>used := False\<rparr>"
  shows "dispatch ext st data =
           (callMsgCb ext
              (st\<lparr>msgCb := processingCb (requestIDs st ! i),
                  requestIDs := (requestIDs st)[i := (requestIDs st ! i)\<lparr>used := False\<rparr>]\<rparr>)
              data, None)
         \<and> (ty \<noteq> JStr ''Refresh'' \<or> (\<exists>s. getProp2 later ''State'' ''Stream'' = Inr s) \<longrightarrow>
              dispatch ext st' later =
                (callMsgCb ext (st'\<lparr>msgCb := processingCb (requestIDs st ! i)\<rparr>) later, None))
         \<and> (ty \<noteq> JStr ''Refresh'' \<or> (\<exists>s. getProp2 later ''State'' ''Stream'' = Inr s) \<longrightarrow>
              processingCb (requestIDs st ! i) = Some (UserCallback f) \<longrightarrow>
              trace (fst (dispatch ext st' later)) = trace st' @ [MarketData f later])
         \<and> (ty = JStr ''Refresh'' \<and> getProp2 later ''State'' ''Stream'' = Inl e \<longrightarrow>
              dispatch ext st' later =
                (st'\<lparr>msgCb := processingCb (requestIDs st ! i)\<rparr>, Some e))"
proof -
  from entry_Slot [OF assms(5)] have i: "i < length (requestIDs st)" .
  have first: "dispatch ext st data =
           (callMsgCb ext
              (st\<lparr>msgCb := processingCb (requestIDs st ! i),
                  requestIDs := (requestIDs st)[i := (requestIDs st ! i)\<lparr>used := False\<rparr>]\<rparr>)
              data, None)"
  proof (cases "used (requestIDs st ! i)")
    case True
    with assms(1-5) show ?thesis
      by (simp add: dispatch_def getCallback_def release_def removeID_def)
  next
    case False
    then have "(requestIDs st)[i := (requestIDs st ! i)\<lparr>used := False\<rparr>] = requestIDs st"
      by (simp add: slot_free_same)
    with False assms(1-5) show ?thesis
      by (simp add: dispatch_def getCallback_def release_def removeID_def)
  qed
  from assms(5,11) have e': "entry ext (requestIDs st') rid = Slot i" by (rule entry_Slot_length)
  from assms(12) have free: "\<not> used (requestIDs st' ! i)" by simp
  from assms(12) have h: "processingCb (requestIDs st' ! i) = processingCb (requestIDs st ! i)"
    by simp
  let ?st1 = "st'\<lparr>msgCb := processingCb (requestIDs st ! i)\<rparr>"
  from e' free have rel: "release ext ?st1 rid = (?st1, None)"
    by (intro release_free_slot [where i = i]) simp_all
  have delivered: "dispatch ext st' later = (callMsgCb ext ?st1 later, None)"
    if "ty \<noteq> JStr ''Refresh'' \<or> (\<exists>s. getProp2 later ''State'' ''Stream'' = Inr s)"
  proof (cases "ty = JStr ''Refresh''")
    case False
    with assms(6-10) e' h show ?thesis by (simp add: dispatch_def getCallback_def)
  next
    case True
    with that obtain s where s: "getProp2 later ''State'' ''Stream'' = Inr s" by blast
    with True assms(6,9,10) e' h rel show ?thesis
      by (simp add: dispatch_def getCallback_def Let_def)
  qed
  have traced: "trace (fst (dispatch ext st' later)) = trace st' @ [MarketData f later]"
    if "ty \<noteq> JStr ''Refresh'' \<or> (\<exists>s. getProp2 later ''State'' ''Stream'' = Inr s)"
      and "processingCb (requestIDs st ! i) = Some (UserCallback f)"
    using delivered [OF that(1)] that(2) by (simp add: callMsgCb_def)
  have thrown: "dispatch ext st' later = (?st1, Some e)"
    if "ty = JStr ''Refresh'' \<and> getProp2 later ''State'' ''Stream'' = Inl e"
    using that assms(6,9,10) e' h by (simp add: dispatch_def getCallback_def Let_def)
  from first delivered traced thrown show ?thesis by blast
qed

theorem snapshot_release_keeps_handler_witness:
  "dispatch stub session
     (JObj [(''Id'', JNum 1), (''Type'', JStr ''Refresh''), (''Domain'', JStr ''MarketPrice''),
            (''State'', JObj [(''Stream'', JStr ''NonStreaming''), (''Data'', JStr ''Ok'')])])
   = (session\<lparr>msgCb := Some (UserCallback 1),
        requestIDs := [\<lparr>used = True, processingCb = None\<rparr>,
                       \<lparr>used = False, processingCb = Some (UserCallback 1)\<rparr>,
                       \<lparr>used = True, processingCb = Some ProcessNewsEnvelope\<rparr>],
        trace := [MarketData 1
                    (JObj [(''Id'', JNum 1), (''Type'', JStr ''Refresh''),
                           (''Domain'', JStr ''MarketPrice''),
                           (''State'', JObj [(''Stream'', JStr ''NonStreaming''),
                                             (''Data'', JStr ''Ok'')])])]\<rparr>, None)
   \<and> trace (fst (dispatch stub
        (session\<lparr>requestIDs := [\<lparr>used = True, processingCb = None\<rparr>,
                       \<lparr>used = False, processingCb = Some (UserCallback 1)\<rparr>,
                       \<lparr>used = True, processingCb = Some ProcessNewsEnvelope\<rparr>]\<rparr>)
        (JObj [(''Id'', JNum 1), (''Type'', JStr ''Update''), (''Domain'', JStr ''MarketPrice'')])))
     = [MarketData 1
          (JObj [(''Id'', JNum 1), (''Type'', JStr ''Update''), (''Domain'', JStr ''MarketPrice'')])]
   \<and> dispatch stub
        (session\<lparr>requestIDs := [\<lparr>used = True, processingCb = None\<rparr>,
                       \<lparr>used = False, processingCb = Some (UserCallback 1)\<rparr>,
                       \<lparr>used = True, processingCb = Some ProcessNewsEnvelope\<rparr>]\<rparr>)
        (JObj [(''Id'', JNum 1), (''Type'', JStr ''Refresh''), (''Domain'', JStr ''MarketPrice'')])
     = (session\<lparr>msgCb := Some (UserCallback 1),
          requestIDs := [\<lparr>used = True, processingCb = None\<rparr>,
                       \<lparr>used = False, processingCb = Some (UserCallback 1)\<rparr>,
                       \<lparr>used = True, processingCb = Some ProcessNewsEnvelope\<rparr>]\<rparr>,
        Some (typeError ''Stream'' JUndefined))"
proof -
  let ?d = "JObj [(''Id'', JNum 1), (''Type'', JStr ''Refresh''), (''Domain'', JStr ''MarketPrice''),
            (''State'', JObj [(''Stream'', JStr ''NonStreaming''), (''Data'', JStr ''Ok'')])]"
  let ?l = "JObj [(''Id'', JNum 1), (''Type'', JStr ''Update''), (''Domain'', JStr ''MarketPrice'')]"
  let ?r = "JObj [(''Id'', JNum 1), (''Type'', JStr ''Refresh''), (''Domain'', JStr ''MarketPrice'')]"
  let ?st' = "session\<lparr>requestIDs := [\<lparr>used = True, processingCb = None\<rparr>,
                       \<lparr>used = False, processingCb = Some (UserCallback 1)\<rparr>,
                       \<lparr>used = True, processingCb = Some ProcessNewsEnvelope\<rparr>]\<rparr>"
  have h1: "getProp ?d ''Type'' = Inr (JStr ''Refresh'')" by simp
  have h2: "getProp ?d ''Domain'' \<noteq> Inr (JStr ''Login'')" by simp
  have h3: "getProp2 ?d ''State'' ''Stream'' = Inr (JStr ''NonStreaming'')"
    by (simp add: getProp2_def)
  have h4: "getProp ?d ''Id'' = Inr (JNum 1)" by simp
  have h5: "entry stub (requestIDs session) (JNum 1) = Slot 1"
    by (simp add: entry_def session_def)
  have h6: "getProp ?l ''Type'' = Inr (JStr ''Update'')" by simp
  have h7: "JStr ''Update'' \<noteq> JStr ''Ping''" by simp
  have h8: "JStr ''Update'' \<noteq> JStr ''Status''" by simp
  have h9: "getProp ?l ''Domain'' \<noteq> Inr (JStr ''Login'')" by simp
  have h10: "getProp ?l ''Id'' = Inr (JNum 1)" by simp
  have h11: "1 < length (requestIDs ?st')" by simp
  have h12: "requestIDs ?st' ! 1 = (requestIDs session ! 1)\<lparr>used := False\<rparr>"
    by (simp add: session_def)
  have k6: "getProp ?r ''Type'' = Inr (JStr ''Refresh'')" by simp
  have k7: "JStr ''Refresh'' \<noteq> JStr ''Ping''" by simp
  have k8: "JStr ''Refresh'' \<noteq> JStr ''Status''" by simp
  have k9: "getProp ?r ''Domain'' \<noteq> Inr (JStr ''Login'')" by simp
  have k10: "getProp ?r ''Id'' = Inr (JNum 1)" by simp
  have k: "getProp2 ?r ''State'' ''Stream'' = Inl (typeError ''Stream'' JUndefined)"
    by (simp add: getProp2_def)
  have c: "processingCb (requestIDs session ! 1) = Some (UserCallback 1)" "trace ?st' = []"
    by (simp_all add: session_def)
  note t1 = snapshot_release_keeps_handler
         [OF h1 h2 h3 h4 h5 h6 h7 h8 h9 h10 h11 h12, of 1 "typeError ''Stream'' JUndefined"]
  note t2 = snapshot_release_keeps_handler
         [OF h1 h2 h3 h4 h5 k6 k7 k8 k9 k10 h11 h12, of 1 "typeError ''Stream'' JUndefined"]
  from t1 have a: "dispatch stub session ?d =
            (callMsgCb stub
              (session\<lparr>msgCb := processingCb (requestIDs session ! 1),
                  requestIDs := (requestIDs session)
                     [1 := (requestIDs session ! 1)\<lparr>used := False\<rparr>]\<rparr>) ?d, None)"
    by blast
  from t1 h7 c(1) have "trace (fst (dispatch stub ?st' ?l)) = trace ?st' @ [MarketData 1 ?l]"
    by blast
  with c(2) have b: "trace (fst (dispatch stub ?st' ?l)) = [MarketData 1 ?l]"
    by simp
  from t2 k have "dispatch stub ?st' ?r =
             (?st'\<lparr>msgCb := processingCb (requestIDs session ! 1)\<rparr>,
              Some (typeError ''Stream'' JUndefined))"
    by blast
  with c(1) have d: "dispatch stub ?st' ?r =
             (?st'\<lparr>msgCb := Some (UserCallback 1)\<rparr>, Some (typeError ''Stream'' JUndefined))"
    by simp
  from a have a': "dispatch stub session ?d =
     (session\<lparr>msgCb := Some (UserCallback 1),
        requestIDs := [\<lparr>used = True, processingCb = None\<rparr>,
                       \<lparr>used = False, processingCb = Some (UserCallback 1)\<rparr>,
                       \<lparr>used = True, processingCb = Some ProcessNewsEnvelope\<rparr>],
        trace := [MarketData 1 ?d]\<rparr>, None)"
    by (simp add: session_def callMsgCb_def)
  from d have d': "dispatch stub ?st' ?r =
     (session\<lparr>msgCb := Some (UserCallback 1),
          requestIDs := [\<lparr>used = True, processingCb = None\<rparr>,
                       \<lparr>used = False, processingCb = Some (UserCallback 1)\<rparr>,
                       \<lparr>used = True, processingCb = Some ProcessNewsEnvelope\<rparr>]\<rparr>,
        Some (typeError ''Stream'' JUndefined))"
    by (simp add: session_def)
  from a' b d' show ?thesis by blast
qed

section \<open>Errors while a frame is processed\<close>

lemma statusEvent_fields:
  "statusCb (statusEvent st c m) = statusCb st"
  "requestIDs (statusEvent st c m) = requestIDs st"
  "newsEnvelope (statusEvent st c m) = newsEnvelope st"
  by (simp_all add: statusEvent_def split: option.splits)

lemma processStory_statusCb:
  "processStory ext st msg b = (st', r) \<Longrightarrow> statusCb st' = statusCb st"
  by (auto simp: processStory_def split: sum.splits option.splits)

lemma newsBody_statusCb:
  "newsBody ext st msg = (st', r) \<Longrightarrow> statusCb st' = statusCb st"
  by (auto simp: newsBody_def setNewsEnvelope_def deleteNewsEnvelope_def Let_def
           split: sum.splits option.splits if_splits dest: processStory_statusCb)

lemma processNewsEnvelope_statusCb:
  "statusCb (processNewsEnvelope ext st msg) = statusCb st"
  by (cases "newsBody ext st msg")
     (auto simp: processNewsEnvelope_def statusEvent_fields split: option.splits
           dest: newsBody_statusCb)

lemma callMsgCb_statusCb: "statusCb (callMsgCb ext st data) = statusCb st"
  by (simp add: callMsgCb_def processNewsEnvelope_statusCb split: option.splits handler.splits)

lemma release_statusCb: "release ext st rid = (st', r) \<Longrightarrow> statusCb st' = statusCb st"
  by (auto simp: release_def split: sum.splits)

lemma pong_statusCb: "statusCb (pong st) = statusCb st"
  by (simp add: pong_def send_def)

lemma dispatch_statusCb:
  "dispatch ext st data = (st', r) \<Longrightarrow> statusCb st' = statusCb st"
  by (auto simp: dispatch_def Let_def statusEvent_fields pong_statusCb callMsgCb_statusCb
           split: sum.splits option.splits if_splits prod.splits
           dest: release_statusCb)

lemma dispatchAll_statusCb:
  "dispatchAll ext st xs = (st', r) \<Longrightarrow> statusCb st' = statusCb st"
proof (induction xs arbitrary: st)
  case Nil
  then show ?case by simp
next
  case (Cons x xs)
  obtain st1 r1 where d: "dispatch ext st x = (st1, r1)" by (cases "dispatch ext st x")
  from dispatch_statusCb [OF d] have s1: "statusCb st1 = statusCb st" .
  show ?case
  proof (cases r1)
    case None
    with Cons.prems d have "dispatchAll ext st1 xs = (st', r)" by simp
    from Cons.IH [OF this] s1 show ?thesis by simp
  next
    case (Some e)
    with Cons.prems d have "st' = st1" by simp
    with s1 show ?thesis by simp
  qed
qed

lemma dispatchAll_stops:
  "dispatchAll ext st pre = (st1, None) \<Longrightarrow> dispatch ext st1 x = (st2, Some e) \<Longrightarrow>
     dispatchAll ext st (pre @ x # rest) = (st2, Some e)"
proof (induction pre arbitrary: st)
  case Nil
  then show ?case by simp
next
  case (Cons p pre)
  obtain sp rp where d: "dispatch ext st p = (sp, rp)" by (cases "dispatch ext st p")
  with Cons.prems(1) have rp: "rp = None" by (cases rp) simp_all
  with Cons.prems(1) d have "dispatchAll ext sp pre = (st1, None)" by simp
  from Cons.IH [OF this Cons.prems(2)] d rp show ?case by simp
qed

text \<open>
  Claim C7 speaks of every frame whose text is not valid JSON and of every exception raised
  while a frame's elements are dispatched. The empty text is not valid JSON, and the guard
  \<^verbatim>\<open>msg.data.length > 0\<close> ignores it: no event. An exception raised inside
  \<^verbatim>\<open>_processNewsEnvelope\<close> is caught there, and the loop goes on: after the failing news
  update the ping that follows in the same frame is still answered.
\<close>

theorem frame_error_counterexample:
  "json_parse stub [] = Inl (Exn (JStr ''Unexpected end of JSON input''))
   \<and> onMessage stub session (Text []) = session
   \<and> dispatchAll stub session [newsUpdate 2 ''Q0Q='' 6, JObj [(''Type'', JStr ''Ping'')]]
     = (session\<lparr>msgCb := Some ProcessNewsEnvelope,
          trace := [Status 0 processingError (JStr ''incorrect header check''),
                    Sent (JObj [(''Type'', JStr ''Pong'')])]\<rparr>, None)"
  by (simp add: dispatch_def callMsgCb_def getCallback_def entry_def
        processNewsEnvelope_def newsBody_def processStory_def newsKey_def getProp2_def
        newsUpdate_def stub_def zlibBraces_def session_def getNewsEnvelope_def num_lt_def js_number_def
        js_string_def MRN_DOMAIN_def statusEvent_def pong_def send_def)

text \<open>
  Claim C7, amended. For every frame whose text is not empty and not valid JSON, the
  registered status handler receives exactly one \<^verbatim>\<open>processingError\<close> event carrying the
  exception's message, and nothing else changes: the slot table and the envelope map are
  as before. The same one event is reported for an exception that leaves the dispatch of an
  element (or the read of the array's length): the state is the one reached when the
  exception was thrown, and the elements after the failing one are not dispatched. A frame
  whose text is empty, or that is not text, is ignored.
\<close>

theorem processing_error_report:
  "(text \<noteq> [] \<and> json_parse ext text = Inl e \<longrightarrow>
      onMessage ext st (Text text) =
        st\<lparr>trace := trace st @ (case statusCb st of
                                  None \<Rightarrow> []
                                | Some f \<Rightarrow> [Status f processingError (message e)])\<rparr>)
   \<and> (text \<noteq> [] \<and> json_parse ext text = Inr result \<and> elements ext result = Inl e \<longrightarrow>
      onMessage ext st (Text text) =
        st\<lparr>trace := trace st @ (case statusCb st of
                                  None \<Rightarrow> []
                                | Some f \<Rightarrow> [Status f processingError (message e)])\<rparr>)
   \<and> (text \<noteq> [] \<and> json_parse ext text = Inr result \<and>
        elements ext result = Inr (pre @ x # rest) \<and>
        dispatchAll ext st pre = (st1, None) \<and> dispatch ext st1 x = (st2, Some e) \<longrightarrow>
      onMessage ext st (Text text) =
        st2\<lparr>trace := trace st2 @ (case statusCb st of
                                    None \<Rightarrow> []
                                  | Some f \<Rightarrow> [Status f processingError (message e)])\<rparr>)
   \<and> onMessage ext st (Text []) = st
   \<and> onMessage ext st Binary = st"
proof (intro conjI impI)
  assume "text \<noteq> [] \<and> json_parse ext text = Inl e"
  then show "onMessage ext st (Text text) =
        st\<lparr>trace := trace st @ (case statusCb st of
                                  None \<Rightarrow> []
                                | Some f \<Rightarrow> [Status f processingError (message e)])\<rparr>"
    by (simp add: statusEvent_def split: option.splits)
next
  assume "text \<noteq> [] \<and> json_parse ext text = Inr result \<and> elements ext result = Inl e"
  then show "onMessage ext st (Text text) =
        st\<lparr>trace := trace st @ (case statusCb st of
                                  None \<Rightarrow> []
                                | Some f \<Rightarrow> [Status f processingError (message e)])\<rparr>"
    by (simp add: statusEvent_def split: option.splits)
next
  assume a: "text \<noteq> [] \<and> json_parse ext text = Inr result \<and>
        elements ext result = Inr (pre @ x # rest) \<and>
        dispatchAll ext st pre = (st1, None) \<and> dispatch ext st1 x = (st2, Some e)"
  then have all: "dispatchAll ext st (pre @ x # rest) = (st2, Some e)"
    by (simp add: dispatchAll_stops)
  from a have "statusCb st1 = statusCb st" by (blast dest: dispatchAll_statusCb)
  moreover from a have "statusCb st2 = statusCb st1" by (blast dest: dispatch_statusCb)
  ultimately have cb: "statusCb st2 = statusCb st" by simp
  from a all cb show "onMessage ext st (Text text) =
        st2\<lparr>trace := trace st2 @ (case statusCb st of
                                    None \<Rightarrow> []
                                  | Some f \<Rightarrow> [Status f processingError (message e)])\<rparr>"
    by (simp add: statusEvent_def split: option.splits)
next
  show "onMessage ext st (Text []) = st" by simp
next
  show "onMessage ext st Binary = st" by simp
qed


lemma elements_JArr: "elements ext (JArr xs) = Inr xs"
proof -
  have "map (index (JArr xs)) [0..<length xs] = xs"
    by (rule nth_equalityI) simp_all
  then show ?thesis by (simp add: elements_def js_number_def)
qed

theorem processing_error_report_witness:
  "onMessage stub session (Text ''{'') =
     session\<lparr>trace := [Status 0 processingError (JStr ''Unexpected end of JSON input'')]\<rparr>
   \<and> onMessage stub session (Text ''null'') =
     session\<lparr>trace := [Status 0 processingError (JStr ''Cannot read property length of null'')]\<rparr>
   \<and> onMessage stub session (Text ''[7,null,7]'') =
     session\<lparr>msgCb := None,
        trace := [Status 0 processingError (JStr ''Cannot read property Type of null'')]\<rparr>"
proof -
  have p1: "''{'' \<noteq> [] \<and>
            json_parse stub ''{'' = Inl (Exn (JStr ''Unexpected end of JSON input''))"
    by (simp add: stub_def zlibBraces_def)
  have p2: "''null'' \<noteq> [] \<and> json_parse stub ''null'' = Inr JNull \<and>
            elements stub JNull = Inl (typeError ''length'' JNull)"
    by (simp add: stub_def zlibBraces_def elements_def)
  have d1: "dispatchAll stub session [JNum 7] = (session\<lparr>msgCb := None\<rparr>, None)"
    by (simp add: dispatch_def getCallback_def entry_def callMsgCb_def js_string_def
          indexOfKey_def isDigit_def stub_def)
  have d2: "dispatch stub (session\<lparr>msgCb := None\<rparr>) JNull =
              (session\<lparr>msgCb := None\<rparr>, Some (typeError ''Type'' JNull))"
    by (simp add: dispatch_def)
  have p3: "''[7,null,7]'' \<noteq> [] \<and>
            json_parse stub ''[7,null,7]'' = Inr (JArr [JNum 7, JNull, JNum 7]) \<and>
            elements stub (JArr [JNum 7, JNull, JNum 7]) = Inr ([JNum 7] @ JNull # [JNum 7]) \<and>
            dispatchAll stub session [JNum 7] = (session\<lparr>msgCb := None\<rparr>, None) \<and>
            dispatch stub (session\<lparr>msgCb := None\<rparr>) JNull =
              (session\<lparr>msgCb := None\<rparr>, Some (typeError ''Type'' JNull))"
    using d1 d2 by (simp add: stub_def zlibBraces_def elements_JArr)
  have c: "statusCb session = Some 0" "trace session = []"
    by (simp_all add: session_def)
  from processing_error_report
         [of "''{''" stub "Exn (JStr ''Unexpected end of JSON input'')" session] p1
  have r1: "onMessage stub session (Text ''{'') =
     session\<lparr>trace := [Status 0 processingError (JStr ''Unexpected end of JSON input'')]\<rparr>"
    by (simp add: c)
  from processing_error_report
         [of "''null''" stub "typeError ''length'' JNull" session JNull] p2
  have r2: "onMessage stub session (Text ''null'') =
     session\<lparr>trace := [Status 0 processingError (JStr ''Cannot read property length of null'')]\<rparr>"
    by (simp add: c typeError_def)
  from processing_error_report
         [of "''[7,null,7]''" stub "typeError ''Type'' JNull" session
             "JArr [JNum 7, JNull, JNum 7]" "[JNum 7]" JNull "[JNum 7]"
             "session\<lparr>msgCb := None\<rparr>" "session\<lparr>msgCb := None\<rparr>"] p3
  have r3: "onMessage stub session (Text ''[7,null,7]'') =
     session\<lparr>msgCb := None,
        trace := [Status 0 processingError (JStr ''Cannot read property Type of null'')]\<rparr>"
    by (simp add: c typeError_def)
  from r1 r2 r3 show ?thesis by blast
qed

section \<open>The envelope map\<close>

lemma processStory_newsEnvelope:
  "newsEnvelope (fst (processStory ext st msg b)) = newsEnvelope st"
  by (simp add: processStory_def split: sum.splits option.splits)

lemma processNewsEnvelope_newsEnvelope:
  "newsEnvelope (processNewsEnvelope ext st msg) = newsEnvelope (fst (newsBody ext st msg))"
  by (cases "newsBody ext st msg")
     (simp add: processNewsEnvelope_def statusEvent_fields split: option.splits)

lemma incomplete_withinTotal: "incomplete ext env \<Longrightarrow> withinTotal ext env"
  by (auto simp: incomplete_def withinTotal_def num_lt_def split: option.splits)

lemma newsBody_invariant:
  assumes "envelopesIncomplete ext st"
  shows "envelopesIncomplete ext (fst (newsBody ext st msg))"
  using assms unfolding envelopesIncomplete_def
  by (auto simp: newsBody_def Let_def setNewsEnvelope_def deleteNewsEnvelope_def
        getNewsEnvelope_def incomplete_def processStory_newsEnvelope
        split: sum.splits option.splits if_splits)

lemma newsBody_removal:
  assumes "envelopesIncomplete ext st" and "newsEnvelope st key = Some env"
  shows "newsEnvelope (fst (newsBody ext st msg)) key = None \<longleftrightarrow> completes ext st msg key"
  using assms unfolding envelopesIncomplete_def
  by (auto simp: newsBody_def Let_def setNewsEnvelope_def deleteNewsEnvelope_def
        getNewsEnvelope_def completes_def incomplete_def processStory_newsEnvelope
        split: sum.splits option.splits if_splits)


lemma newsBody_fate:
  assumes "newsEnvelope st key = Some env"
    and "newsEnvelope (fst (newsBody ext st msg)) key = Some env'"
  shows "env' = env \<or> appended ext msg key env env' \<or> replaced ext msg key env'"
  using assms
  by (auto simp: newsBody_def Let_def setNewsEnvelope_def deleteNewsEnvelope_def
        getNewsEnvelope_def appended_def replaced_def incomplete_def
        processStory_newsEnvelope
        split: sum.splits option.splits if_splits)

text \<open>
  Claim C8 says that each envelope is removed from the map exactly once, at the step whose
  appended fragment first makes the accumulated length reach the total. An envelope that
  holds \<^verbatim>\<open>AB\<close> of 6 bytes is discarded when a first fragment arrives under its key: the
  step appends nothing and completes nothing, no story is delivered, and the map then holds
  a new envelope with \<^verbatim>\<open>CD\<close> of 9 bytes.
\<close>

theorem envelope_overwrite_counterexample:
  "newsEnvelope
     (session\<lparr>newsEnvelope := [''MRN_STORY:src:g1'' \<mapsto> \<lparr>fragments = ''AB'', totalSize = JNum 6\<rparr>]\<rparr>)
     ''MRN_STORY:src:g1'' = Some \<lparr>fragments = ''AB'', totalSize = JNum 6\<rparr>
   \<and> \<not> completes stub
        (session\<lparr>newsEnvelope := [''MRN_STORY:src:g1'' \<mapsto> \<lparr>fragments = ''AB'', totalSize = JNum 6\<rparr>]\<rparr>)
        (newsUpdate 1 ''Q0Q='' 9) ''MRN_STORY:src:g1''
   \<and> newsEnvelope
       (processNewsEnvelope stub
          (session\<lparr>newsEnvelope :=
              [''MRN_STORY:src:g1'' \<mapsto> \<lparr>fragments = ''AB'', totalSize = JNum 6\<rparr>]\<rparr>)
          (newsUpdate 1 ''Q0Q='' 9)) ''MRN_STORY:src:g1''
     = Some \<lparr>fragments = ''CD'', totalSize = JNum 9\<rparr>
   \<and> trace
       (processNewsEnvelope stub
          (session\<lparr>newsEnvelope :=
              [''MRN_STORY:src:g1'' \<mapsto> \<lparr>fragments = ''AB'', totalSize = JNum 6\<rparr>]\<rparr>)
          (newsUpdate 1 ''Q0Q='' 9)) = []"
  by (simp add: completes_def processNewsEnvelope_def newsBody_def newsKey_def getProp2_def
        newsUpdate_def stub_def zlibBraces_def session_def getNewsEnvelope_def
        setNewsEnvelope_def num_lt_def js_number_def js_string_def MRN_DOMAIN_def)

text \<open>
  Claim C8, amended. A controller with no envelope satisfies the invariant, and every call
  of \<^verbatim>\<open>_processNewsEnvelope\<close> keeps it: each envelope the map holds afterwards has not
  reached its total, so its accumulated length is at most \<^verbatim>\<open>totalSize\<close>. A key that
  has an envelope before the call has none after it exactly when the call is the one whose
  appended fragment first makes the accumulated length reach the total. When the key still
  has an envelope after the call, that envelope is the old one unchanged, the old one with
  the fragment of the message appended, or a new envelope that a first fragment under the
  same key puts in its place, the old bytes being discarded without completion.
\<close>

theorem envelope_invariant_and_removal:
  "(newsEnvelope st0 = Map.empty \<longrightarrow> envelopesIncomplete ext st0)
   \<and> (envelopesIncomplete ext st \<longrightarrow>
        envelopesIncomplete ext (processNewsEnvelope ext st msg)
        \<and> (\<forall>key env. newsEnvelope (processNewsEnvelope ext st msg) key = Some env \<longrightarrow>
               withinTotal ext env)
        \<and> (\<forall>key env. newsEnvelope st key = Some env \<longrightarrow>
               (newsEnvelope (processNewsEnvelope ext st msg) key = None \<longleftrightarrow>
                completes ext st msg key))
        \<and> (\<forall>key env env'. newsEnvelope st key = Some env \<and>
               newsEnvelope (processNewsEnvelope ext st msg) key = Some env' \<longrightarrow>
               env' = env \<or> appended ext msg key env env' \<or> replaced ext msg key env'))"
proof (intro conjI impI allI)
  assume "newsEnvelope st0 = Map.empty"
  then show "envelopesIncomplete ext st0" by (simp add: envelopesIncomplete_def)
next
  assume "envelopesIncomplete ext st"
  then have "envelopesIncomplete ext (fst (newsBody ext st msg))" by (rule newsBody_invariant)
  then show "envelopesIncomplete ext (processNewsEnvelope ext st msg)"
    by (simp add: envelopesIncomplete_def processNewsEnvelope_newsEnvelope)
next
  fix key env
  assume "envelopesIncomplete ext st"
    and "newsEnvelope (processNewsEnvelope ext st msg) key = Some env"
  then have "incomplete ext env"
    using newsBody_invariant [of ext st msg]
    by (simp add: envelopesIncomplete_def processNewsEnvelope_newsEnvelope)
  then show "withinTotal ext env" by (rule incomplete_withinTotal)
next
  fix key env
  assume "envelopesIncomplete ext st" and "newsEnvelope st key = Some env"
  then show "newsEnvelope (processNewsEnvelope ext st msg) key = None \<longleftrightarrow>
             completes ext st msg key"
    by (simp add: processNewsEnvelope_newsEnvelope newsBody_removal)
next
  fix key env env'
  assume "newsEnvelope st key = Some env \<and>
          newsEnvelope (processNewsEnvelope ext st msg) key = Some env'"
  then have "newsEnvelope st key = Some env"
    and "newsEnvelope (fst (newsBody ext st msg)) key = Some env'"
    by (simp_all add: processNewsEnvelope_newsEnvelope)
  then show "env' = env \<or> appended ext msg key env env' \<or> replaced ext msg key env'"
    by (rule newsBody_fate)
qed

theorem envelope_invariant_and_removal_witness:
  "envelopesIncomplete stub
     (session\<lparr>newsEnvelope := [''MRN_STORY:src:g1'' \<mapsto> \<lparr>fragments = ''ABCD'', totalSize = JNum 6\<rparr>]\<rparr>)
   \<and> envelopesIncomplete stub
       (processNewsEnvelope stub
          (session\<lparr>newsEnvelope :=
              [''MRN_STORY:src:g1'' \<mapsto> \<lparr>fragments = ''ABCD'', totalSize = JNum 6\<rparr>]\<rparr>)
          (newsUpdate 3 ''RUY='' 6))
   \<and> completes stub
       (session\<lparr>newsEnvelope := [''MRN_STORY:src:g1'' \<mapsto> \<lparr>fragments = ''ABCD'', totalSize = JNum 6\<rparr>]\<rparr>)
       (newsUpdate 3 ''RUY='' 6) ''MRN_STORY:src:g1''
   \<and> newsEnvelope
       (processNewsEnvelope stub
          (session\<lparr>newsEnvelope :=
              [''MRN_STORY:src:g1'' \<mapsto> \<lparr>fragments = ''ABCD'', totalSize = JNum 6\<rparr>]\<rparr>)
          (newsUpdate 3 ''RUY='' 6)) ''MRN_STORY:src:g1'' = None
   \<and> replaced stub (newsUpdate 1 ''Q0Q='' 9) ''MRN_STORY:src:g1''
       \<lparr>fragments = ''CD'', totalSize = JNum 9\<rparr>"
proof -
  let ?S = "session\<lparr>newsEnvelope :=
              [''MRN_STORY:src:g1'' \<mapsto> \<lparr>fragments = ''ABCD'', totalSize = JNum 6\<rparr>]\<rparr>"
  let ?m = "newsUpdate 1 ''Q0Q='' 9"
  have inv: "envelopesIncomplete stub ?S"
    by (simp add: envelopesIncomplete_def incomplete_def num_lt_def js_number_def)
  have env: "newsEnvelope ?S ''MRN_STORY:src:g1'' = Some \<lparr>fragments = ''ABCD'', totalSize = JNum 6\<rparr>"
    by simp
  have c: "completes stub ?S (newsUpdate 3 ''RUY='' 6) ''MRN_STORY:src:g1''"
    by (simp add: completes_def newsUpdate_def MRN_DOMAIN_def newsKey_def getProp2_def
          js_string_def num_lt_def js_number_def stub_def zlibBraces_def incomplete_def)
  from envelope_invariant_and_removal [of ?S stub ?S "newsUpdate 3 ''RUY='' 6"] inv env c
  have "envelopesIncomplete stub (processNewsEnvelope stub ?S (newsUpdate 3 ''RUY='' 6))"
    and "newsEnvelope (processNewsEnvelope stub ?S (newsUpdate 3 ''RUY='' 6))
           ''MRN_STORY:src:g1'' = None"
    by blast+
  moreover
  have after: "newsEnvelope (processNewsEnvelope stub ?S ?m) ''MRN_STORY:src:g1'' =
                 Some \<lparr>fragments = ''CD'', totalSize = JNum 9\<rparr>"
    by (simp add: processNewsEnvelope_def newsBody_def newsKey_def getProp2_def
          newsUpdate_def stub_def zlibBraces_def session_def setNewsEnvelope_def num_lt_def
          js_number_def js_string_def MRN_DOMAIN_def)
  have ne: "\<lparr>fragments = ''CD'', totalSize = JNum 9\<rparr> \<noteq> \<lparr>fragments = ''ABCD'', totalSize = JNum 6\<rparr>"
    by simp
  have na: "\<not> appended stub ?m ''MRN_STORY:src:g1''
             \<lparr>fragments = ''ABCD'', totalSize = JNum 6\<rparr> \<lparr>fragments = ''CD'', totalSize = JNum 9\<rparr>"
    by (simp add: appended_def newsUpdate_def getProp2_def num_lt_def js_number_def)
  from envelope_invariant_and_removal [of ?S stub ?S ?m] inv env after ne na
  have "replaced stub ?m ''MRN_STORY:src:g1'' \<lparr>fragments = ''CD'', totalSize = JNum 9\<rparr>"
    by blast
  ultimately show ?thesis using inv c by blast
qed

section \<open>Reassembly of a story\<close>

lemma first_fragment_stored:
  assumes "isFragment ext key nm msg 1 b"
    and "getProp2 msg ''Fields'' ''TOT_SIZE'' = Inr (JNum T)"
    and "int (length b) < T"
  shows "processNewsEnvelope ext st msg =
           st\<lparr>newsEnvelope := (newsEnvelope st)(key \<mapsto> \<lparr>fragments = b, totalSize = JNum T\<rparr>)\<rparr>"
  using assms
  by (auto simp: isFragment_def processNewsEnvelope_def newsBody_def setNewsEnvelope_def
        num_lt_def js_number_def split: sum.splits)

lemma continuation_appended:
  assumes "isFragment ext key nm msg n b" and "2 \<le> n"
    and "newsEnvelope st key = Some env" and "totalSize env = JNum T"
    and "int (length (fragments env) + length b) < T"
  shows "processNewsEnvelope ext st msg =
           st\<lparr>newsEnvelope := (newsEnvelope st)(key \<mapsto> env\<lparr>fragments := fragments env @ b\<rparr>)\<rparr>"
  using assms
  by (auto simp: isFragment_def processNewsEnvelope_def newsBody_def setNewsEnvelope_def
        getNewsEnvelope_def num_lt_def js_number_def Let_def split: sum.splits)

lemma continuation_completes:
  assumes "isFragment ext key nm msg n b" and "2 \<le> n"
    and "newsEnvelope st key = Some env" and "totalSize env = JNum T"
    and "\<not> int (length (fragments env) + length b) < T"
    and "inflate ext (fragments env @ b) = Inr strData" and "json_parse ext strData = Inr doc"
    and "newsStoryCb st = Some f"
  shows "processNewsEnvelope ext st msg =
           st\<lparr>newsEnvelope := (newsEnvelope st)(key := None),
              trace := trace st @ [News f nm doc]\<rparr>"
  using assms
  by (auto simp: isFragment_def processNewsEnvelope_def newsBody_def deleteNewsEnvelope_def
        getNewsEnvelope_def processStory_def num_lt_def js_number_def Let_def
        split: sum.splits)


lemma fragmentsFrom_Cons:
  "fragmentsFrom ext key nm n (m # ms) bs \<Longrightarrow>
     \<exists>b bs'. bs = b # bs' \<and> isFragment ext key nm m n b \<and>
             fragmentsFrom ext key nm (Suc n) ms bs'"
  by (cases bs) simp_all

lemma fragmentsFrom_Nil: "fragmentsFrom ext key nm n [] bs \<Longrightarrow> bs = []"
  by (cases bs) simp_all

lemma concat_nonempty: "x \<in> set xs \<Longrightarrow> x \<noteq> [] \<Longrightarrow> concat xs \<noteq> []"
  by (induction xs) auto

lemma continuations_deliver:
  assumes "fragmentsFrom ext key nm n ms bs" and "2 \<le> n" and "ms \<noteq> []"
    and "newsEnvelope st key = Some env"
    and "totalSize env = JNum (int (length (fragments env) + length (concat bs)))"
    and "last bs \<noteq> []"
    and "inflate ext (fragments env @ concat bs) = Inr strData"
    and "json_parse ext strData = Inr doc"
    and "newsStoryCb st = Some f"
  shows "foldl (processNewsEnvelope ext) st ms =
           st\<lparr>newsEnvelope := (newsEnvelope st)(key := None),
              trace := trace st @ [News f nm doc]\<rparr>"
  using assms
proof (induction ms arbitrary: st env n bs)
  case Nil
  then show ?case by simp
next
  case (Cons m ms)
  from fragmentsFrom_Cons [OF Cons.prems(1)] obtain b bs' where bs: "bs = b # bs'"
    and m: "isFragment ext key nm m n b" and rest: "fragmentsFrom ext key nm (Suc n) ms bs'"
    by blast
  show ?case
  proof (cases ms)
    case Nil
    with rest have e: "bs' = []" by (simp add: fragmentsFrom_Nil)
    have "processNewsEnvelope ext st m =
            st\<lparr>newsEnvelope := (newsEnvelope st)(key := None),
               trace := trace st @ [News f nm doc]\<rparr>"
      using m Cons.prems(2,4,5,7,8,9) bs e
      by (intro continuation_completes
            [where env = env and strData = strData
               and T = "int (length (fragments env) + length b)"]) simp_all
    with Nil show ?thesis by (simp only: foldl_Cons foldl_Nil)
  next
    case (Cons m' ms')
    with rest have ne: "bs' \<noteq> []" by (cases bs') simp_all
    with Cons.prems(6) bs have l: "last bs' \<noteq> []" by simp
    from ne have "last bs' \<in> set bs'" by simp
    from this l have "concat bs' \<noteq> []" by (rule concat_nonempty)
    then have pos: "0 < length (concat bs')" by simp
    let ?env = "env\<lparr>fragments := fragments env @ b\<rparr>"
    let ?st = "st\<lparr>newsEnvelope := (newsEnvelope st)(key \<mapsto> ?env)\<rparr>"
    have step: "processNewsEnvelope ext st m = ?st"
      using m Cons.prems(2,4,5) bs pos
      by (intro continuation_appended
            [where T = "int (length (fragments env) + length (concat bs))"]) simp_all
    have "foldl (processNewsEnvelope ext) ?st ms =
            ?st\<lparr>newsEnvelope := (newsEnvelope ?st)(key := None),
                trace := trace ?st @ [News f nm doc]\<rparr>"
      using rest Cons.prems(2,5,7,8,9) bs l Cons
      by (intro Cons.IH [where env = ?env and n = "Suc n" and bs = bs']) simp_all
    then have "foldl (processNewsEnvelope ext) ?st ms =
            st\<lparr>newsEnvelope := (newsEnvelope st)(key := None),
               trace := trace st @ [News f nm doc]\<rparr>"
      by simp
    with step show ?thesis by (simp only: foldl_Cons)
  qed
qed


text \<open>
  Claim C4 speaks of every multi-fragment story whose decoded lengths sum to the declared
  total. Three stories in order under one key, each with lengths that sum to its total:
  the bytes of the first are not a zlib stream, so the inflation throws and the news
  callback is not called; the second arrives when no news callback is registered, and
  nothing is called; the third has an empty second fragment, so it is complete at its
  first message, which is processed at once and leaves the map alone, and its second
  message is appended to the envelope an earlier, unfinished story left under the key:
  the callback is called once, and the key has an envelope afterwards.
\<close>

theorem story_reassembly_counterexample:
  "fragmentsFrom stub ''MRN_STORY:src:g1'' (JStr ''MRN_STORY'') 1
     [newsUpdate 1 ''QUI='' 6, newsUpdate 2 ''Q0Q='' 6, newsUpdate 3 ''RUY='' 6]
     [''AB'', ''CD'', ''EF'']
   \<and> trace (foldl (processNewsEnvelope stub) session
        [newsUpdate 1 ''QUI='' 6, newsUpdate 2 ''Q0Q='' 6, newsUpdate 3 ''RUY='' 6])
     = [Status 0 processingError (JStr ''incorrect header check'')]
   \<and> fragmentsFrom stub ''MRN_STORY:src:g1'' (JStr ''MRN_STORY'') 1
       [newsUpdate 1 ''eJyrrg=='' 10, newsUpdate 2 ''BQABdQ=='' 10, newsUpdate 3 ''APk='' 10]
       [take 4 zlibBraces, take 4 (drop 4 zlibBraces), drop 8 zlibBraces]
   \<and> trace (foldl (processNewsEnvelope stub) (session\<lparr>newsStoryCb := None\<rparr>)
        [newsUpdate 1 ''eJyrrg=='' 10, newsUpdate 2 ''BQABdQ=='' 10, newsUpdate 3 ''APk='' 10])
     = []
   \<and> fragmentsFrom stub ''MRN_STORY:src:g1'' (JStr ''MRN_STORY'') 1
       [newsUpdate 1 ''eJyrrgUAAXUA+Q=='' 10, newsUpdate 2 [] 10] [zlibBraces, []]
   \<and> trace (foldl (processNewsEnvelope stub) session
        [newsUpdate 1 ''QUI='' 9, newsUpdate 1 ''eJyrrgUAAXUA+Q=='' 10, newsUpdate 2 [] 10])
     = [News 2 (JStr ''MRN_STORY'') (JObj [])]
   \<and> newsEnvelope (foldl (processNewsEnvelope stub) session
        [newsUpdate 1 ''QUI='' 9, newsUpdate 1 ''eJyrrgUAAXUA+Q=='' 10, newsUpdate 2 [] 10])
       ''MRN_STORY:src:g1''
     = Some \<lparr>fragments = ''AB'', totalSize = JNum 9\<rparr>"
  by (simp add: isFragment_def processNewsEnvelope_def newsBody_def processStory_def
        newsKey_def getProp2_def newsUpdate_def stub_def zlibBraces_def session_def
        getNewsEnvelope_def setNewsEnvelope_def deleteNewsEnvelope_def num_lt_def
        js_number_def js_string_def MRN_DOMAIN_def statusEvent_def)

text \<open>
  Claim C4, amended. A story of at least two fragments is delivered as news updates
  (\<^verbatim>\<open>Type\<close> \<^verbatim>\<open>Update\<close>, \<^verbatim>\<open>Domain\<close> \<^verbatim>\<open>NewsTextAnalytics\<close>) with sequence numbers
  1, 2, ..., n under one key and one content code. Its fragments base64-decode to
  \<open>b # bs\<close>, whose lengths sum to the total size the first message declares; the last of
  them is not empty (the story is not complete before its last message); the
  concatenation inflates to a text, the text parses to a document \<open>doc\<close>, and a news
  callback \<open>f\<close> is registered. Then feeding the messages to the reassembler in order
  calls \<open>f\<close> exactly once, with the content code and \<open>doc\<close>; no other event is
  recorded, and the key has no envelope afterwards.
\<close>

theorem story_reassembled:
  assumes "fragmentsFrom ext key nm 1 (m # ms) (b # bs)" and "ms \<noteq> []"
    and "getProp2 m ''Fields'' ''TOT_SIZE'' = Inr (JNum (int (length (concat (b # bs)))))"
    and "last bs \<noteq> []"
    and "inflate ext (concat (b # bs)) = Inr strData"
    and "json_parse ext strData = Inr doc"
    and "newsStoryCb st = Some f"
  shows "foldl (processNewsEnvelope ext) st (m # ms) =
           st\<lparr>newsEnvelope := (newsEnvelope st)(key := None),
              trace := trace st @ [News f nm doc]\<rparr>"
proof -
  from assms(1) have m: "isFragment ext key nm m 1 b"
    and rest: "fragmentsFrom ext key nm 2 ms bs"
    by (simp_all add: numeral_2_eq_2)
  from rest assms(2) have ne: "bs \<noteq> []" by (cases ms; cases bs) simp_all
  then have "last bs \<in> set bs" by simp
  from this assms(4) have "concat bs \<noteq> []" by (rule concat_nonempty)
  then have pos: "0 < length (concat bs)" by simp
  let ?T = "int (length (concat (b # bs)))"
  let ?env = "\<lparr>fragments = b, totalSize = JNum ?T\<rparr>"
  let ?st = "st\<lparr>newsEnvelope := (newsEnvelope st)(key \<mapsto> ?env)\<rparr>"
  have first: "processNewsEnvelope ext st m = ?st"
    using m assms(3) pos by (intro first_fragment_stored) simp_all
  have "foldl (processNewsEnvelope ext) ?st ms =
          ?st\<lparr>newsEnvelope := (newsEnvelope ?st)(key := None),
              trace := trace ?st @ [News f nm doc]\<rparr>"
    using rest assms(2,4,5,6,7)
    by (intro continuations_deliver [where env = ?env and n = 2 and bs = bs
          and strData = strData]) simp_all
  then have "foldl (processNewsEnvelope ext) ?st ms =
          st\<lparr>newsEnvelope := (newsEnvelope st)(key := None),
             trace := trace st @ [News f nm doc]\<rparr>"
    by simp
  with first show ?thesis by (simp only: foldl_Cons)
qed

theorem story_reassembled_witness:
  "fragmentsFrom stub ''MRN_STORY:src:g1'' (JStr ''MRN_STORY'') 1
     [newsUpdate 1 ''eJyrrg=='' 10, newsUpdate 2 ''BQABdQ=='' 10, newsUpdate 3 ''APk='' 10]
     [take 4 zlibBraces, take 4 (drop 4 zlibBraces), drop 8 zlibBraces]
   \<and> inflate stub
        (concat [take 4 zlibBraces, take 4 (drop 4 zlibBraces), drop 8 zlibBraces]) = Inr ''{}''
   \<and> json_parse stub ''{}'' = Inr (JObj [])
   \<and> foldl (processNewsEnvelope stub) session
        [newsUpdate 1 ''eJyrrg=='' 10, newsUpdate 2 ''BQABdQ=='' 10, newsUpdate 3 ''APk='' 10]
     = session\<lparr>newsEnvelope := (newsEnvelope session)(''MRN_STORY:src:g1'' := None),
          trace := trace session @ [News 2 (JStr ''MRN_STORY'') (JObj [])]\<rparr>"
proof -
  let ?b1 = "take 4 zlibBraces" and ?b2 = "take 4 (drop 4 zlibBraces)"
    and ?b3 = "drop 8 zlibBraces"
  have h1: "fragmentsFrom stub ''MRN_STORY:src:g1'' (JStr ''MRN_STORY'') 1
     (newsUpdate 1 ''eJyrrg=='' 10 # [newsUpdate 2 ''BQABdQ=='' 10, newsUpdate 3 ''APk='' 10])
     (?b1 # [?b2, ?b3])"
    by (simp add: isFragment_def newsUpdate_def MRN_DOMAIN_def newsKey_def getProp2_def
          js_string_def stub_def)
  have h2: "[newsUpdate 2 ''BQABdQ=='' 10, newsUpdate 3 ''APk='' 10] \<noteq> []" by simp
  have h3: "getProp2 (newsUpdate 1 ''eJyrrg=='' 10) ''Fields'' ''TOT_SIZE'' =
              Inr (JNum (int (length (concat (?b1 # [?b2, ?b3])))))"
    by (simp add: newsUpdate_def getProp2_def zlibBraces_def)
  have h4: "last [?b2, ?b3] \<noteq> []" by (simp add: zlibBraces_def)
  have h5: "inflate stub (concat (?b1 # [?b2, ?b3])) = Inr ''{}''"
    by (simp add: stub_def zlibBraces_def)
  have h6: "json_parse stub ''{}'' = Inr (JObj [])" by (simp add: stub_def)
  have h7: "newsStoryCb session = Some 2" by (simp add: session_def)
  from story_reassembled [OF h1 h2 h3 h4 h5 h6 h7] h1 h5 h6
  show ?thesis by simp
qed

end
